theory Spec2Isabelle
  imports Complex_Main "HOL-Library.Word"
begin

section \<open>Configuration types (package proxyv1alpha1)\<close>

text \<open>
  Modelled from the spec: the type declarations of package \<open>proxyv1alpha1\<close> are not part
  of \<open>flowcontrol_wrapper.go\<close>.  The wrapper file names two strategy constants,
  \<open>GlobalAllocateLimit\<close> and \<open>GlobalCountLimit\<close>, and sends every other strategy through
  the \<open>default\<close> branch of its switches; \<open>OtherStrategy\<close> stands for all of those (the
  non-global strategies the spec lists, and the zero value of a fresh struct).
\<close>

datatype LimitStrategy = GlobalAllocateLimit | GlobalCountLimit | OtherStrategy string

text \<open>
  Modelled from the spec: the limiter type enumeration.  The wrapper file names
  \<open>MaxRequestsInflight\<close> and \<open>TokenBucket\<close>; any other value is \<open>OtherSchemaType\<close>.
\<close>

datatype FlowControlSchemaType = MaxRequestsInflight | TokenBucket | OtherSchemaType string

text \<open>
  Modelled from the spec: the detail structs.  The fields are the ones the wrapper file
  reads (\<open>.Max\<close>, \<open>.QPS\<close>, \<open>.Burst\<close>).  Their Go integer type is declared elsewhere; the
  values are kept as mathematical integers, and the conversion \<open>uint32(x)\<close> at the
  \<open>Resize\<close> calls is \<open>word_of_int\<close>, which is that conversion for every Go integer type.
  A Go pointer to a struct is an \<open>option\<close>, \<open>nil\<close> being \<open>None\<close>.
\<close>

record MaxRequestsInflightFlowControlSchema =
  mri_Max :: int

record TokenBucketFlowControlSchema =
  tb_QPS :: int
  tb_Burst :: int

record FlowControlSchema =
  fcs_Name :: string
  fcs_Strategy :: LimitStrategy
  fcs_MaxRequestsInflight :: "MaxRequestsInflightFlowControlSchema option"
  fcs_TokenBucket :: "TokenBucketFlowControlSchema option"
  fcs_GlobalMaxRequestsInflight :: "MaxRequestsInflightFlowControlSchema option"
  fcs_GlobalTokenBucket :: "TokenBucketFlowControlSchema option"

record LimitItemDetail =
  lid_MaxRequestsInflight :: "MaxRequestsInflightFlowControlSchema option"
  lid_TokenBucket :: "TokenBucketFlowControlSchema option"

record RateLimitItemConfiguration =
  rli_Name :: string
  rli_Strategy :: LimitStrategy
  rli_LimitItemDetail :: LimitItemDetail

text \<open>The zero values of the two configuration structs (Go initialises fields to them).\<close>

definition zero_FlowControlSchema :: FlowControlSchema where
  "zero_FlowControlSchema =
     \<lparr>fcs_Name = [], fcs_Strategy = OtherStrategy [],
      fcs_MaxRequestsInflight = None, fcs_TokenBucket = None,
      fcs_GlobalMaxRequestsInflight = None, fcs_GlobalTokenBucket = None\<rparr>"

definition zero_RateLimitItemConfiguration :: RateLimitItemConfiguration where
  "zero_RateLimitItemConfiguration =
     \<lparr>rli_Name = [], rli_Strategy = OtherStrategy [],
      rli_LimitItemDetail = \<lparr>lid_MaxRequestsInflight = None, lid_TokenBucket = None\<rparr>\<rparr>"

section \<open>Collaborators behind interfaces\<close>

type_synonym uint32 = "32 word"
type_synonym int32 = "32 word"

text \<open>Run-time panics of the Go code, as values.\<close>

datatype panic = NilPointerDereference | CloseOfClosedChannel | IndexOutOfRange

text \<open>
  The global counter provider is an interface implemented outside this file.  Its state is
  the sequence of calls the wrappers make on it: \<open>Stop(name)\<close> and \<open>Add(name, type, owner)\<close>
  (the owner is always the calling remote wrapper).  \<open>CountOf name ty\<close> is the \<open>Count\<close>
  method of the counter that \<open>Add(name, ty, _)\<close> returned.
\<close>

datatype provider_call = GC_Stop string | GC_Add string FlowControlSchemaType

datatype CounterFun = CountOf string FlowControlSchemaType

text \<open>
  \<open>meterWrapper\<close> embeds a primitive limiter (interface \<open>flowcontrol.FlowControl\<close>) and
  points at the meter of its cache.  Each cache has exactly one meter, so the pointer is
  not stored in the model.
\<close>

record 'fc meterWrapper =
  mw_FlowControl :: 'fc

text \<open>
  The functions of package \<open>flowcontrol\<close> and the constructor \<open>newFlowControlCounter\<close> are
  declared in other files, and the limiters are reached through interfaces.  They are
  parameters of the model: \<open>'fc\<close> is the state of a primitive limiter, \<open>'gfc\<close> the state of
  a counter-aware limiter, \<open>'r\<close> the pushed \<open>AcquireResult\<close>.  A method that may mutate its
  receiver returns the new receiver beside its result.
\<close>

record ('fc, 'gfc, 'r) deps =
  GuessFlowControlSchemaType :: "FlowControlSchema \<Rightarrow> FlowControlSchemaType"
  GetFlowControlTypeFromLimitItem :: "LimitItemDetail \<Rightarrow> FlowControlSchemaType"
  NewFlowControl :: "FlowControlSchema \<Rightarrow> 'fc"
  fc_Type :: "'fc \<Rightarrow> FlowControlSchemaType"
  fc_Resize :: "'fc \<Rightarrow> uint32 \<Rightarrow> uint32 \<Rightarrow> bool \<times> 'fc"
  fc_TryAcquire :: "'fc \<Rightarrow> bool \<times> 'fc"
  fc_Release :: "'fc \<Rightarrow> 'fc"
  newFlowControlCounter ::
    "RateLimitItemConfiguration \<Rightarrow> 'fc meterWrapper \<Rightarrow> CounterFun option \<Rightarrow> 'gfc"
  gfc_Type :: "'gfc \<Rightarrow> FlowControlSchemaType"
  gfc_Resize :: "'gfc \<Rightarrow> uint32 \<Rightarrow> uint32 \<Rightarrow> bool \<times> 'gfc"
  gfc_ExpectToken :: "'gfc \<Rightarrow> int32"
  gfc_CurrentToken :: "'gfc \<Rightarrow> int32"
  gfc_SetLimit :: "'gfc \<Rightarrow> 'r \<Rightarrow> bool \<times> 'gfc"

section \<open>Go's \<open>float64\<close>\<close>

text \<open>
  The meter computes with \<open>float64\<close>.  A value is a finite number, one of the two
  infinities, the negative zero, or not-a-number (all NaN bit patterns are one value: Go
  programs cannot tell them apart with \<open>==\<close> or arithmetic).  \<open>Finite q\<close> is the number \<open>q\<close>;
  \<open>Finite 0\<close> is the positive zero.  Every operation computes the exact rational result
  and rounds it to the nearest binary64 number, ties to even, as IEEE 754 prescribes
  (53 significant bits, exponents from \<open>-1022\<close> to \<open>1023\<close>, subnormals below).
\<close>

datatype float64 = Finite rat | NegZero | PosInf | NegInf | NaN

text \<open>The number of binary digits of a positive integer.\<close>

function bit_length :: "int \<Rightarrow> int" where
  "bit_length n = (if n \<le> 0 then 0 else 1 + bit_length (n div 2))"
  by pat_completeness auto
termination
  by (relation "measure nat") auto

declare bit_length.simps [simp del]

definition pow2 :: "int \<Rightarrow> rat" where
  "pow2 e = (if 0 \<le> e then 2 ^ nat e else 1 / 2 ^ nat (- e))"

text \<open>
  For \<open>a > 0\<close>, the integer \<open>e\<close> with \<open>2 ^ e \<le> a < 2 ^ (e + 1)\<close>: from the digits of
  the integer part when \<open>a \<ge> 1\<close>, of the inverse rounded up otherwise.
\<close>

definition ilog2 :: "rat \<Rightarrow> int" where
  "ilog2 a =
     (if 1 \<le> a then bit_length \<lfloor>a\<rfloor> - 1 else - bit_length (\<lceil>1 / a\<rceil> - 1))"

definition round_half_even :: "rat \<Rightarrow> int" where
  "round_half_even x =
     (let n = \<lfloor>x\<rfloor>; r = x - of_int n
      in if r < 1 / 2 then n else if 1 / 2 < r then n + 1 else if even n then n else n + 1)"

text \<open>
  Rounding a magnitude \<open>a \<ge> 0\<close> to a multiple of the unit in the last place of its
  binade, the exponent range taken as unbounded above.
\<close>

definition round_to_grid :: "rat \<Rightarrow> rat" where
  "round_to_grid a =
     (if a = 0 then 0
      else let u = pow2 (max (ilog2 a) (- 1022) - 52)
           in of_int (round_half_even (a / u)) * u)"

text \<open>
  \<open>f64_round neg r\<close> rounds the exact result \<open>r\<close>, whose sign is \<open>neg\<close> (the sign is given
  apart because an exact zero and an underflow to zero keep it).
\<close>

definition f64_round :: "bool \<Rightarrow> rat \<Rightarrow> float64" where
  "f64_round neg r =
     (let m = round_to_grid \<bar>r\<bar>
      in if pow2 1024 \<le> m then (if neg then NegInf else PosInf)
         else if m = 0 then (if neg then NegZero else Finite 0)
         else Finite (if neg then - m else m))"

definition f64_is_finite :: "float64 \<Rightarrow> bool" where
  "f64_is_finite x = (case x of Finite _ \<Rightarrow> True | NegZero \<Rightarrow> True | _ \<Rightarrow> False)"

definition f64_val :: "float64 \<Rightarrow> rat" where
  "f64_val x = (case x of Finite q \<Rightarrow> q | _ \<Rightarrow> 0)"

definition f64_neg_sign :: "float64 \<Rightarrow> bool" where
  "f64_neg_sign x =
     (case x of Finite q \<Rightarrow> q < 0 | NegZero \<Rightarrow> True | NegInf \<Rightarrow> True | _ \<Rightarrow> False)"

definition f64_neg :: "float64 \<Rightarrow> float64" where
  "f64_neg x =
     (case x of
        Finite q \<Rightarrow> (if q = 0 then NegZero else Finite (- q))
      | NegZero \<Rightarrow> Finite 0
      | PosInf \<Rightarrow> NegInf
      | NegInf \<Rightarrow> PosInf
      | NaN \<Rightarrow> NaN)"

text \<open>\<open>x + y\<close>.  An exact zero sum is \<open>-0\<close> only when both operands are \<open>-0\<close>.\<close>

definition f64_add :: "float64 \<Rightarrow> float64 \<Rightarrow> float64" where
  "f64_add x y =
     (if x = NaN \<or> y = NaN then NaN
      else if x = PosInf then (if y = NegInf then NaN else PosInf)
      else if x = NegInf then (if y = PosInf then NaN else NegInf)
      else if y = PosInf then PosInf
      else if y = NegInf then NegInf
      else let r = f64_val x + f64_val y
           in if r = 0 then (if x = NegZero \<and> y = NegZero then NegZero else Finite 0)
              else f64_round (r < 0) r)"

text \<open>\<open>x - y\<close> is \<open>x + (-y)\<close>.\<close>

definition f64_sub :: "float64 \<Rightarrow> float64 \<Rightarrow> float64" where
  "f64_sub x y = f64_add x (f64_neg y)"

text \<open>\<open>x / y\<close>.  Go's floating-point division by zero does not panic.\<close>

definition f64_div :: "float64 \<Rightarrow> float64 \<Rightarrow> float64" where
  "f64_div x y =
     (let neg = (f64_neg_sign x \<noteq> f64_neg_sign y)
      in if x = NaN \<or> y = NaN then NaN
         else if \<not> f64_is_finite x
         then (if \<not> f64_is_finite y then NaN else if neg then NegInf else PosInf)
         else if \<not> f64_is_finite y then (if neg then NegZero else Finite 0)
         else if f64_val y = 0
         then (if f64_val x = 0 then NaN else if neg then NegInf else PosInf)
         else f64_round neg (f64_val x / f64_val y))"

text \<open>The conversion \<open>float64(n)\<close> of an integer.\<close>

definition f64_of_int :: "int \<Rightarrow> float64" where
  "f64_of_int n = f64_round (n < 0) (of_int n)"

text \<open>
  Go's \<open>==\<close> on \<open>float64\<close>: a NaN is equal to nothing, itself included, and the two zeros
  are equal.
\<close>

definition f64_eq :: "float64 \<Rightarrow> float64 \<Rightarrow> bool" where
  "f64_eq x y =
     (if x = NaN \<or> y = NaN then False
      else if f64_is_finite x \<and> f64_is_finite y then f64_val x = f64_val y
      else x = y)"

text \<open>\<open>math.NaN()\<close> returns a NaN.\<close>

definition math_NaN :: float64 where
  "math_NaN = NaN"

section \<open>The meter\<close>

definition QPSMeterBucketLen :: nat where
  "QPSMeterBucketLen = 3"

definition InflightMeterBucketLen :: nat where
  "InflightMeterBucketLen = 6"

text \<open>
  A \<open>time.Time\<close> is a count of nanoseconds; \<open>Sub\<close> saturates at the bounds of
  \<open>time.Duration\<close>, an \<open>int64\<close>.
\<close>

type_synonym Time = int

definition time_Sub :: "Time \<Rightarrow> Time \<Rightarrow> int" where
  "time_Sub t u =
     (let d = t - u
      in if d < - (2 ^ 63) then - (2 ^ 63) else if 2 ^ 63 - 1 < d then 2 ^ 63 - 1 else d)"

definition time_Second :: int where
  "time_Second = 1000000000"

text \<open>
  The \<open>meter\<close> struct.  The clock is an input of the operations that read it; the mutex, the
  ticker and the two names used in log lines are left out.  \<open>inflightChan\<close> is the buffer of
  a channel made with capacity 1, oldest value first.
\<close>

record meter =
  m_stopCh :: nat
  uncounted :: "64 word"
  currentIndex :: int
  rateAvg :: float64
  last' :: Time
  counterBuckets :: "float64 list"
  inflight :: int32
  inflightIndex :: int
  inflightAvg :: float64
  inflightMax :: int32
  inflightBuckets :: "int32 list"
  inflightChan :: "int32 list"
  debug :: bool

definition inflightChan_cap :: nat where
  "inflightChan_cap = 1"

text \<open>
  \<open>addInflight\<close>: the atomic add returns the new counter; the \<open>select\<close> with a
  \<open>default\<close> branch sends it when the buffer has room and does nothing otherwise.
\<close>

definition addInflight :: "meter \<Rightarrow> int32 \<Rightarrow> meter" where
  "addInflight m add =
     (let inflight' = inflight m + add;
          m1 = m\<lparr>inflight := inflight'\<rparr>
      in if length (inflightChan m1) < inflightChan_cap
         then m1\<lparr>inflightChan := inflightChan m1 @ [inflight']\<rparr>
         else m1)"

definition add :: "meter \<Rightarrow> 64 word \<Rightarrow> meter" where
  "add m n = m\<lparr>uncounted := uncounted m + n\<rparr>"

text \<open>\<open>latestRate\<close> at clock reading \<open>now\<close>: the instantaneous rate and the meter after it.\<close>

definition latestRate :: "meter \<Rightarrow> Time \<Rightarrow> float64 \<times> meter" where
  "latestRate m now =
     (let count = uncounted m;
          m1 = m\<lparr>uncounted := uncounted m + (- count)\<rparr>;
          timeWindow = f64_div (f64_of_int (time_Sub now (last' m1))) (f64_of_int time_Second);
          instantRate = f64_div (f64_of_int (sint count)) timeWindow
      in (instantRate, m1\<lparr>last' := now\<rparr>))"

text \<open>
  \<open>calculateAvgRate\<close> at clock reading \<open>now\<close>.  Indexing the bucket slice outside its
  bounds panics.
\<close>

definition calculateAvgRate :: "meter \<Rightarrow> Time \<Rightarrow> panic \<times> meter + meter" where
  "calculateAvgRate m now =
     (case latestRate m now of
        (latestRate', m1) \<Rightarrow>
          if currentIndex m1 < 0 \<or> int (length (counterBuckets m1)) \<le> currentIndex m1
          then Inl (IndexOutOfRange, m1)
          else
            let lastRate = counterBuckets m1 ! nat (currentIndex m1);
                lastRate = (if f64_eq lastRate math_NaN then Finite 0 else lastRate);
                rateAvg' =
                  f64_add (rateAvg m1)
                    (f64_div (f64_sub latestRate' lastRate)
                       (f64_of_int (int (length (counterBuckets m1)))))
            in Inr (m1\<lparr>rateAvg := rateAvg',
                        counterBuckets :=
                          (counterBuckets m1)[nat (currentIndex m1) := latestRate'],
                        currentIndex :=
                          (currentIndex m1 + 1) mod int (length (counterBuckets m1))\<rparr>))"

text \<open>
  \<open>calculateAvgRate\<close> with the comparison against \<open>math.NaN()\<close> and the assignment it
  guards taken out: the function the claim about that branch compares with.
\<close>

definition calculateAvgRate_without_NaN_branch :: "meter \<Rightarrow> Time \<Rightarrow> panic \<times> meter + meter" where
  "calculateAvgRate_without_NaN_branch m now =
     (case latestRate m now of
        (latestRate', m1) \<Rightarrow>
          if currentIndex m1 < 0 \<or> int (length (counterBuckets m1)) \<le> currentIndex m1
          then Inl (IndexOutOfRange, m1)
          else
            let lastRate = counterBuckets m1 ! nat (currentIndex m1);
                rateAvg' =
                  f64_add (rateAvg m1)
                    (f64_div (f64_sub latestRate' lastRate)
                       (f64_of_int (int (length (counterBuckets m1)))))
            in Inr (m1\<lparr>rateAvg := rateAvg',
                        counterBuckets :=
                          (counterBuckets m1)[nat (currentIndex m1) := latestRate'],
                        currentIndex :=
                          (currentIndex m1 + 1) mod int (length (counterBuckets m1))\<rparr>))"

definition rate :: "meter \<Rightarrow> float64" where
  "rate m = rateAvg m"

definition avgInflight :: "meter \<Rightarrow> float64" where
  "avgInflight m = inflightAvg m"

definition maxInflight :: "meter \<Rightarrow> int32" where
  "maxInflight m = inflightMax m"

definition currentInflight :: "meter \<Rightarrow> int32" where
  "currentInflight m = inflight m"

text \<open>The meter that \<open>NewFlowControlCache\<close> builds, at clock reading \<open>now\<close>.\<close>

definition new_meter :: "nat \<Rightarrow> Time \<Rightarrow> meter" where
  "new_meter ch now =
     \<lparr>m_stopCh = ch, uncounted = 0, currentIndex = 0, rateAvg = Finite 0, last' = now,
      counterBuckets = replicate QPSMeterBucketLen (Finite 0),
      inflight = 0, inflightIndex = 0, inflightAvg = Finite 0, inflightMax = 0,
      inflightBuckets = replicate InflightMeterBucketLen 0,
      inflightChan = [], debug = False\<rparr>"

section \<open>The flow-control cache and its two wrappers\<close>

text \<open>
  \<open>remoteWrapper\<close>: the embedded interface \<open>GlobalCounterFlowControl\<close> (\<open>nil\<close> until the
  first rebuild), the stored item and the stop channel.  Channels are numbered; the cache
  state records which ones are closed.
\<close>

record 'gfc remoteWrapper =
  GlobalCounterFlowControl :: "'gfc option"
  remoteConfig :: RateLimitItemConfiguration
  stopCh :: nat

text \<open>
  \<open>flowControlCache\<close> with its \<open>localWrapper\<close> inlined (\<open>local\<close> is set once by the
  constructor and never \<open>nil\<close>): \<open>local_FlowControl\<close> is the embedded limiter of the local
  wrapper, \<open>localConfig\<close> its stored schema.
\<close>

record ('fc, 'gfc) flowControlCache =
  local_FlowControl :: "'fc meterWrapper option"
  localConfig :: FlowControlSchema
  remote :: "'gfc remoteWrapper option"
  cluster :: string
  name :: string
  globalCounter :: "provider_call list"
  meter :: meter
  clientID :: string
  closedChans :: "nat set"
  nextChan :: nat

definition close_chan ::
  "('fc, 'gfc) flowControlCache \<Rightarrow> nat \<Rightarrow>
     panic \<times> ('fc, 'gfc) flowControlCache + ('fc, 'gfc) flowControlCache" where
  "close_chan f ch =
     (if ch \<in> closedChans f then Inl (CloseOfClosedChannel, f)
      else Inr (f\<lparr>closedChans := insert ch (closedChans f)\<rparr>))"

definition FlowControl :: "('fc, 'gfc) flowControlCache \<Rightarrow> 'gfc remoteWrapper option" where
  "FlowControl f = (if remote f = None then None else remote f)"

definition EnableRemoteFlowControl ::
  "('fc, 'gfc) flowControlCache \<Rightarrow> ('fc, 'gfc) flowControlCache" where
  "EnableRemoteFlowControl f =
     (if remote f = None
      then f\<lparr>remote := Some \<lparr>GlobalCounterFlowControl = None,
                              remoteConfig = zero_RateLimitItemConfiguration,
                              stopCh = nextChan f\<rparr>,
              nextChan := Suc (nextChan f)\<rparr>
      else f)"

definition Strategy :: "('fc, 'gfc) flowControlCache \<Rightarrow> LimitStrategy" where
  "Strategy f = fcs_Strategy (localConfig f)"

definition Stop ::
  "('fc, 'gfc) flowControlCache \<Rightarrow>
     panic \<times> ('fc, 'gfc) flowControlCache + ('fc, 'gfc) flowControlCache" where
  "Stop f =
     (case close_chan f (m_stopCh (meter f)) of
        Inl e \<Rightarrow> Inl e
      | Inr f1 \<Rightarrow>
          (case remote f1 of
             None \<Rightarrow> Inr f1
           | Some r \<Rightarrow> close_chan f1 (stopCh r)))"

definition stopRemoteWrapper ::
  "('fc, 'gfc) flowControlCache \<Rightarrow>
     panic \<times> ('fc, 'gfc) flowControlCache + ('fc, 'gfc) flowControlCache" where
  "stopRemoteWrapper f =
     (case remote f of
        None \<Rightarrow> Inr (f\<lparr>remote := None\<rparr>)
      | Some r \<Rightarrow>
          (case close_chan f (stopCh r) of
             Inl e \<Rightarrow> Inl e
           | Inr f1 \<Rightarrow> Inr (f1\<lparr>remote := None\<rparr>)))"

definition newMeterFlowControl ::
  "('fc, 'gfc, 'r) deps \<Rightarrow> FlowControlSchema \<Rightarrow> 'fc meterWrapper" where
  "newMeterFlowControl d schema = \<lparr>mw_FlowControl = NewFlowControl d schema\<rparr>"

text \<open>\<open>Type\<close> and \<open>Resize\<close> of a \<open>meterWrapper\<close> are promoted from the embedded limiter.\<close>

definition mw_Type :: "('fc, 'gfc, 'r) deps \<Rightarrow> 'fc meterWrapper \<Rightarrow> FlowControlSchemaType" where
  "mw_Type d w = fc_Type d (mw_FlowControl w)"

definition mw_Resize ::
  "('fc, 'gfc, 'r) deps \<Rightarrow> 'fc meterWrapper \<Rightarrow> uint32 \<Rightarrow> uint32 \<Rightarrow> bool \<times> 'fc meterWrapper" where
  "mw_Resize d w n b =
     (case fc_Resize d (mw_FlowControl w) n b of (ok, fc') \<Rightarrow> (ok, w\<lparr>mw_FlowControl := fc'\<rparr>))"

text \<open>
  \<open>meterWrapper.TryAcquire\<close> and \<open>meterWrapper.Release\<close>, on the wrapper and the meter of
  its cache.
\<close>

definition meterWrapper_TryAcquire ::
  "('fc, 'gfc, 'r) deps \<Rightarrow> 'fc meterWrapper \<Rightarrow> meter \<Rightarrow> bool \<times> 'fc meterWrapper \<times> meter" where
  "meterWrapper_TryAcquire d w m =
     (case fc_TryAcquire d (mw_FlowControl w) of
        (acquire, fc') \<Rightarrow>
          (acquire, w\<lparr>mw_FlowControl := fc'\<rparr>,
           if acquire then add (addInflight m 1) 1 else m))"

definition meterWrapper_Release ::
  "('fc, 'gfc, 'r) deps \<Rightarrow> 'fc meterWrapper \<Rightarrow> meter \<Rightarrow> 'fc meterWrapper \<times> meter" where
  "meterWrapper_Release d w m =
     (let m1 = addInflight m (- 1)
      in (w\<lparr>mw_FlowControl := fc_Release d (mw_FlowControl w)\<rparr>, m1))"

text \<open>\<open>strings.Split(s, "-")\<close>: the pieces of \<open>s\<close> between the separators, never empty.\<close>

fun split_on :: "char \<Rightarrow> string \<Rightarrow> string list" where
  "split_on c [] = [[]]"
| "split_on c (x # xs) =
     (if x = c then [] # split_on c xs
      else (case split_on c xs of
              y # ys \<Rightarrow> (x # y) # ys
            | [] \<Rightarrow> [[x]]))"

text \<open>
  \<open>NewFlowControlCache\<close> at clock reading \<open>now\<close>.  The meter's stop channel is channel 0;
  the two background goroutines it starts are not part of the state.
\<close>

definition NewFlowControlCache ::
  "string \<Rightarrow> string \<Rightarrow> string \<Rightarrow> provider_call list \<Rightarrow> Time \<Rightarrow> ('fc, 'gfc) flowControlCache" where
  "NewFlowControlCache cluster' name' clientID' globalCounterProvider now =
     (let clientIdSlices = split_on CHR ''-'' clientID';
          id' = clientIdSlices ! (length clientIdSlices - 1)
      in \<lparr>local_FlowControl = None, localConfig = zero_FlowControlSchema, remote = None,
          cluster = cluster', name = name', globalCounter = globalCounterProvider,
          meter = new_meter 0 now, clientID = id', closedChans = {}, nextChan = 1\<rparr>)"

definition Rate :: "('fc, 'gfc) flowControlCache \<Rightarrow> float64" where
  "Rate f = rate (meter f)"

definition Inflight :: "('fc, 'gfc) flowControlCache \<Rightarrow> float64" where
  "Inflight f = avgInflight (meter f)"

definition MaxInflight :: "('fc, 'gfc) flowControlCache \<Rightarrow> int32" where
  "MaxInflight f = maxInflight (meter f)"

definition EnableGlobalFlowControl :: "FlowControlSchema \<Rightarrow> bool" where
  "EnableGlobalFlowControl schema =
     (case fcs_Strategy schema of
        GlobalAllocateLimit \<Rightarrow>
          (if fcs_GlobalTokenBucket schema \<noteq> None \<or> fcs_GlobalMaxRequestsInflight schema \<noteq> None
           then True else False)
      | GlobalCountLimit \<Rightarrow>
          (if fcs_GlobalTokenBucket schema \<noteq> None \<or> fcs_GlobalMaxRequestsInflight schema \<noteq> None
           then True else False)
      | OtherStrategy _ \<Rightarrow> False)"

definition toFlowControlSchema :: "RateLimitItemConfiguration \<Rightarrow> FlowControlSchema" where
  "toFlowControlSchema limitItemConfig =
     (let schema = zero_FlowControlSchema
            \<lparr>fcs_Name := rli_Name limitItemConfig, fcs_Strategy := rli_Strategy limitItemConfig\<rparr>
      in case lid_MaxRequestsInflight (rli_LimitItemDetail limitItemConfig) of
           Some m \<Rightarrow> schema\<lparr>fcs_MaxRequestsInflight := Some \<lparr>mri_Max = mri_Max m\<rparr>\<rparr>
         | None \<Rightarrow>
             (case lid_TokenBucket (rli_LimitItemDetail limitItemConfig) of
                Some t \<Rightarrow>
                  schema\<lparr>fcs_TokenBucket := Some \<lparr>tb_QPS = tb_QPS t, tb_Burst = tb_Burst t\<rparr>\<rparr>
              | None \<Rightarrow> schema))"

subsection \<open>Local wrapper\<close>

definition localWrapper_Config :: "('fc, 'gfc) flowControlCache \<Rightarrow> FlowControlSchema" where
  "localWrapper_Config f = localConfig f"

text \<open>
  The \<open>switch newType\<close> of \<open>localWrapper.Sync\<close>: the in-place resize.  Reading
  \<open>schema.MaxRequestsInflight.Max\<close> through a \<open>nil\<close> pointer panics.  The boolean that
  \<open>Resize\<close> returns only selects a log line.
\<close>

definition localWrapper_resize ::
  "('fc, 'gfc, 'r) deps \<Rightarrow> ('fc, 'gfc) flowControlCache \<Rightarrow> 'fc meterWrapper \<Rightarrow>
     FlowControlSchemaType \<Rightarrow> FlowControlSchema \<Rightarrow>
     panic \<times> ('fc, 'gfc) flowControlCache + ('fc, 'gfc) flowControlCache" where
  "localWrapper_resize d f w newType schema =
     (case newType of
        MaxRequestsInflight \<Rightarrow>
          (case fcs_MaxRequestsInflight schema of
             None \<Rightarrow> Inl (NilPointerDereference, f)
           | Some m \<Rightarrow>
               Inr (f\<lparr>local_FlowControl :=
                        Some (snd (mw_Resize d w (word_of_int (mri_Max m)) 0))\<rparr>))
      | TokenBucket \<Rightarrow>
          (case fcs_TokenBucket schema of
             None \<Rightarrow> Inl (NilPointerDereference, f)
           | Some t \<Rightarrow>
               Inr (f\<lparr>local_FlowControl :=
                        Some (snd (mw_Resize d w (word_of_int (tb_QPS t))
                                                 (word_of_int (tb_Burst t))))\<rparr>))
      | OtherSchemaType _ \<Rightarrow> Inr f)"

text \<open>
  \<open>localWrapper.Sync\<close>.  \<open>reflect.DeepEqual\<close> on two schemas compares the fields and, through
  the pointers, the structs they point to: equality of the records.
\<close>

definition localWrapper_Sync ::
  "('fc, 'gfc, 'r) deps \<Rightarrow> ('fc, 'gfc) flowControlCache \<Rightarrow> FlowControlSchema \<Rightarrow>
     panic \<times> ('fc, 'gfc) flowControlCache + ('fc, 'gfc) flowControlCache" where
  "localWrapper_Sync d f schema =
     (if schema = localConfig f then Inr f
      else
        let f1 = f\<lparr>localConfig := schema\<rparr>;
            newType = GuessFlowControlSchemaType d schema
        in case local_FlowControl f1 of
             None \<Rightarrow> Inr (f1\<lparr>local_FlowControl := Some (newMeterFlowControl d schema)\<rparr>)
           | Some w \<Rightarrow>
               if mw_Type d w \<noteq> newType
               then Inr (f1\<lparr>local_FlowControl := Some (newMeterFlowControl d schema)\<rparr>)
               else
                 (case localWrapper_resize d f1 w newType schema of
                    Inl e \<Rightarrow> Inl e
                  | Inr f2 \<Rightarrow>
                      if \<not> EnableGlobalFlowControl schema then stopRemoteWrapper f2
                      else Inr f2))"

subsection \<open>Remote wrapper\<close>

definition remoteWrapper_Config ::
  "'gfc remoteWrapper \<Rightarrow> RateLimitItemConfiguration" where
  "remoteWrapper_Config r = remoteConfig r"

definition remoteWrapper_Done :: "'gfc remoteWrapper \<Rightarrow> nat" where
  "remoteWrapper_Done r = stopCh r"

text \<open>
  \<open>remoteWrapper.newFlowControl\<close>: returns the new limiter and the cache, whose provider
  has seen the calls.
\<close>

definition remoteWrapper_newFlowControl ::
  "('fc, 'gfc, 'r) deps \<Rightarrow> ('fc, 'gfc) flowControlCache \<Rightarrow> RateLimitItemConfiguration \<Rightarrow>
     FlowControlSchemaType \<Rightarrow> 'gfc \<times> ('fc, 'gfc) flowControlCache" where
  "remoteWrapper_newFlowControl d f limitItem newType =
     (let f1 = f\<lparr>globalCounter := globalCounter f @ [GC_Stop (rli_Name limitItem)]\<rparr>;
          fc = newMeterFlowControl d (toFlowControlSchema limitItem)
      in if rli_Strategy limitItem = GlobalCountLimit
         then (newFlowControlCounter d limitItem fc
                 (Some (CountOf (rli_Name limitItem) newType)),
               f1\<lparr>globalCounter :=
                    globalCounter f1 @ [GC_Add (rli_Name limitItem) newType]\<rparr>)
         else (newFlowControlCounter d limitItem fc None, f1))"

text \<open>Writing the two fields of the remote wrapper held by the cache.\<close>

definition set_GlobalCounterFlowControl ::
  "('fc, 'gfc) flowControlCache \<Rightarrow> 'gfc \<Rightarrow> ('fc, 'gfc) flowControlCache" where
  "set_GlobalCounterFlowControl f g =
     f\<lparr>remote := map_option (\<lambda>r. r\<lparr>GlobalCounterFlowControl := Some g\<rparr>) (remote f)\<rparr>"

definition set_remoteConfig ::
  "('fc, 'gfc) flowControlCache \<Rightarrow> RateLimitItemConfiguration \<Rightarrow>
     ('fc, 'gfc) flowControlCache" where
  "set_remoteConfig f limitItem =
     f\<lparr>remote := map_option (\<lambda>r. r\<lparr>remoteConfig := limitItem\<rparr>) (remote f)\<rparr>"

definition remoteWrapper_rebuild ::
  "('fc, 'gfc, 'r) deps \<Rightarrow> ('fc, 'gfc) flowControlCache \<Rightarrow> RateLimitItemConfiguration \<Rightarrow>
     FlowControlSchemaType \<Rightarrow> ('fc, 'gfc) flowControlCache" where
  "remoteWrapper_rebuild d f limitItem newType =
     (case remoteWrapper_newFlowControl d f limitItem newType of
        (g, f1) \<Rightarrow> set_GlobalCounterFlowControl f1 g)"

text \<open>
  The \<open>switch\<close> of \<open>remoteWrapper.Sync\<close>, entered with the held limiter \<open>g\<close>.  The local
  configuration's global detail is read through its pointer with no check.
\<close>

definition remoteWrapper_resize ::
  "('fc, 'gfc, 'r) deps \<Rightarrow> ('fc, 'gfc) flowControlCache \<Rightarrow> 'gfc \<Rightarrow>
     RateLimitItemConfiguration \<Rightarrow> FlowControlSchemaType \<Rightarrow>
     panic \<times> ('fc, 'gfc) flowControlCache + ('fc, 'gfc) flowControlCache" where
  "remoteWrapper_resize d f g limitItem newType =
     (if lid_MaxRequestsInflight (rli_LimitItemDetail limitItem) \<noteq> None
         \<and> gfc_Type d g = MaxRequestsInflight
      then
        (case (lid_MaxRequestsInflight (rli_LimitItemDetail limitItem),
               fcs_GlobalMaxRequestsInflight (localWrapper_Config f)) of
           (Some m, Some gm) \<Rightarrow>
             let max = mri_Max m;
                 globalMax = mri_Max gm;
                 max = (if max > globalMax then globalMax else max)
             in Inr (set_GlobalCounterFlowControl f
                       (snd (gfc_Resize d g (word_of_int max) 0)))
         | _ \<Rightarrow> Inl (NilPointerDereference, f))
      else if lid_TokenBucket (rli_LimitItemDetail limitItem) \<noteq> None
         \<and> gfc_Type d g = TokenBucket
      then
        (case (lid_TokenBucket (rli_LimitItemDetail limitItem),
               fcs_GlobalTokenBucket (localWrapper_Config f)) of
           (Some t, Some gt) \<Rightarrow>
             let qps = tb_QPS t;
                 globalQPS = tb_QPS gt;
                 qps = (if qps > globalQPS then globalQPS else qps)
             in Inr (set_GlobalCounterFlowControl f
                       (snd (gfc_Resize d g (word_of_int qps) (word_of_int (tb_Burst t)))))
         | _ \<Rightarrow> Inl (NilPointerDereference, f))
      else Inr (remoteWrapper_rebuild d f limitItem newType))"

text \<open>
  \<open>remoteWrapper.Sync\<close> on the remote wrapper of cache \<open>f\<close>; with no remote wrapper the call
  goes through a \<open>nil\<close> receiver.  The deferred assignment of \<open>remoteConfig\<close> runs on every
  way out after the equality check, also when the body panics.
\<close>

definition remoteWrapper_Sync ::
  "('fc, 'gfc, 'r) deps \<Rightarrow> ('fc, 'gfc) flowControlCache \<Rightarrow> RateLimitItemConfiguration \<Rightarrow>
     panic \<times> ('fc, 'gfc) flowControlCache + ('fc, 'gfc) flowControlCache" where
  "remoteWrapper_Sync d f limitItem =
     (case remote f of
        None \<Rightarrow> Inl (NilPointerDereference, f)
      | Some r \<Rightarrow>
          if limitItem = remoteConfig r then Inr f
          else
            let newType = GetFlowControlTypeFromLimitItem d (rli_LimitItemDetail limitItem);
                body =
                  (case GlobalCounterFlowControl r of
                     None \<Rightarrow> Inr (remoteWrapper_rebuild d f limitItem newType)
                   | Some g \<Rightarrow>
                       if gfc_Type d g \<noteq> newType
                          \<or> rli_Strategy (remoteConfig r) \<noteq> rli_Strategy limitItem
                       then Inr (remoteWrapper_rebuild d f limitItem newType)
                       else remoteWrapper_resize d f g limitItem newType)
            in case body of
                 Inl (e, f1) \<Rightarrow> Inl (e, set_remoteConfig f1 limitItem)
               | Inr f1 \<Rightarrow> Inr (set_remoteConfig f1 limitItem))"

definition remoteWrapper_ExpectToken :: "('fc, 'gfc, 'r) deps \<Rightarrow> 'gfc remoteWrapper \<Rightarrow> int32" where
  "remoteWrapper_ExpectToken d r =
     (case GlobalCounterFlowControl r of
        Some g \<Rightarrow> gfc_ExpectToken d g
      | None \<Rightarrow> - 1)"

definition remoteWrapper_CurrentToken :: "('fc, 'gfc, 'r) deps \<Rightarrow> 'gfc remoteWrapper \<Rightarrow> int32" where
  "remoteWrapper_CurrentToken d r =
     (case GlobalCounterFlowControl r of
        Some g \<Rightarrow> gfc_CurrentToken d g
      | None \<Rightarrow> - 1)"

definition remoteWrapper_SetLimit ::
  "('fc, 'gfc, 'r) deps \<Rightarrow> 'gfc remoteWrapper \<Rightarrow> 'r \<Rightarrow> bool \<times> 'gfc remoteWrapper" where
  "remoteWrapper_SetLimit d r result =
     (case GlobalCounterFlowControl r of
        Some g \<Rightarrow>
          (case gfc_SetLimit d g result of
             (ok, g') \<Rightarrow> (ok, r\<lparr>GlobalCounterFlowControl := Some g'\<rparr>))
      | None \<Rightarrow> (False, r))"

section \<open>A reference set of collaborators\<close>

text \<open>
  Modelled from the spec: package \<open>flowcontrol\<close> and \<open>newFlowControlCounter\<close> are not in
  \<open>flowcontrol_wrapper.go\<close>.  The spec gives their contract: the limiter type is determined
  by the populated detail of a schema; a primitive limiter has \<open>type()\<close>,
  \<open>resize(primary, secondary)\<close>, \<open>tryAdmit()\<close> and \<open>release()\<close>, and a freshly built one reports
  the type of its schema; a counter-aware limiter wraps an instrumented limiter and answers
  \<open>expectToken\<close>, \<open>currentToken\<close> and \<open>setLimit\<close>.  The theorems below hold for every choice
  of collaborators; this one runs the wrappers on concrete inputs.
\<close>

record prim_limiter =
  pl_type :: FlowControlSchemaType
  pl_primary :: uint32
  pl_secondary :: uint32
  pl_held :: nat

record glob_limiter =
  gl_limiter :: "prim_limiter meterWrapper"
  gl_counterFun :: "CounterFun option"
  gl_expect :: int32
  gl_current :: int32

definition spec_GuessFlowControlSchemaType :: "FlowControlSchema \<Rightarrow> FlowControlSchemaType" where
  "spec_GuessFlowControlSchemaType schema =
     (if fcs_MaxRequestsInflight schema \<noteq> None then MaxRequestsInflight
      else if fcs_TokenBucket schema \<noteq> None then TokenBucket
      else OtherSchemaType ''Unknown'')"

definition spec_GetFlowControlTypeFromLimitItem :: "LimitItemDetail \<Rightarrow> FlowControlSchemaType" where
  "spec_GetFlowControlTypeFromLimitItem detail =
     (if lid_MaxRequestsInflight detail \<noteq> None then MaxRequestsInflight
      else if lid_TokenBucket detail \<noteq> None then TokenBucket
      else OtherSchemaType ''Unknown'')"

definition spec_NewFlowControl :: "FlowControlSchema \<Rightarrow> prim_limiter" where
  "spec_NewFlowControl schema =
     (case fcs_MaxRequestsInflight schema of
        Some m \<Rightarrow>
          \<lparr>pl_type = MaxRequestsInflight, pl_primary = word_of_int (mri_Max m),
           pl_secondary = 0, pl_held = 0\<rparr>
      | None \<Rightarrow>
          (case fcs_TokenBucket schema of
             Some t \<Rightarrow>
               \<lparr>pl_type = TokenBucket, pl_primary = word_of_int (tb_QPS t),
                pl_secondary = word_of_int (tb_Burst t), pl_held = 0\<rparr>
           | None \<Rightarrow>
               \<lparr>pl_type = OtherSchemaType ''Unknown'', pl_primary = 0,
                pl_secondary = 0, pl_held = 0\<rparr>))"

definition spec_Resize :: "prim_limiter \<Rightarrow> uint32 \<Rightarrow> uint32 \<Rightarrow> bool \<times> prim_limiter" where
  "spec_Resize l n b =
     (pl_primary l \<noteq> n \<or> pl_secondary l \<noteq> b, l\<lparr>pl_primary := n, pl_secondary := b\<rparr>)"

definition spec_TryAcquire :: "prim_limiter \<Rightarrow> bool \<times> prim_limiter" where
  "spec_TryAcquire l =
     (if pl_type l = MaxRequestsInflight \<and> unat (pl_primary l) \<le> pl_held l then (False, l)
      else (True, l\<lparr>pl_held := Suc (pl_held l)\<rparr>))"

definition spec_Release :: "prim_limiter \<Rightarrow> prim_limiter" where
  "spec_Release l = l\<lparr>pl_held := pl_held l - 1\<rparr>"

definition spec_newFlowControlCounter ::
  "RateLimitItemConfiguration \<Rightarrow> prim_limiter meterWrapper \<Rightarrow> CounterFun option \<Rightarrow>
     glob_limiter" where
  "spec_newFlowControlCounter limitItem fc counterFun =
     \<lparr>gl_limiter = fc, gl_counterFun = counterFun,
      gl_expect = pl_primary (mw_FlowControl fc), gl_current = 0\<rparr>"

definition spec_gl_Resize :: "glob_limiter \<Rightarrow> uint32 \<Rightarrow> uint32 \<Rightarrow> bool \<times> glob_limiter" where
  "spec_gl_Resize g n b =
     (case spec_Resize (mw_FlowControl (gl_limiter g)) n b of
        (ok, l) \<Rightarrow> (ok, g\<lparr>gl_limiter := \<lparr>mw_FlowControl = l\<rparr>, gl_expect := n\<rparr>))"

definition spec_deps :: "(prim_limiter, glob_limiter, int32) deps" where
  "spec_deps =
     \<lparr>GuessFlowControlSchemaType = spec_GuessFlowControlSchemaType,
      GetFlowControlTypeFromLimitItem = spec_GetFlowControlTypeFromLimitItem,
      NewFlowControl = spec_NewFlowControl,
      fc_Type = pl_type,
      fc_Resize = spec_Resize,
      fc_TryAcquire = spec_TryAcquire,
      fc_Release = spec_Release,
      newFlowControlCounter = spec_newFlowControlCounter,
      gfc_Type = (\<lambda>g. pl_type (mw_FlowControl (gl_limiter g))),
      gfc_Resize = spec_gl_Resize,
      gfc_ExpectToken = gl_expect,
      gfc_CurrentToken = gl_current,
      gfc_SetLimit = (\<lambda>g r. (True, g\<lparr>gl_current := r\<rparr>))\<rparr>"

section \<open>The invariant of the rate estimator, as stated\<close>

text \<open>
  The rate average equals the sum of the buckets divided by their number.  Read on the
  \<open>float64\<close> values, the buckets are added in order and the sum divided, every step
  rounded, and the comparison is Go's \<open>==\<close>.
\<close>

definition rate_invariant :: "meter \<Rightarrow> bool" where
  "rate_invariant m =
     f64_eq (rateAvg m)
       (f64_div (foldl f64_add (Finite 0) (counterBuckets m))
          (f64_of_int (int (length (counterBuckets m)))))"

text \<open>The same quotient in exact arithmetic, on the numbers the buckets hold.\<close>

definition exact_mean :: "meter \<Rightarrow> rat" where
  "exact_mean m =
     sum_list (map f64_val (counterBuckets m)) / of_nat (length (counterBuckets m))"

section \<open>Concrete states\<close>

text \<open>
  A target \<open>pods\<close> of cluster \<open>c1\<close>: a local schema with a token bucket and a global
  token bucket under \<open>GlobalCountLimit\<close>, one with in-flight ceilings under
  \<open>GlobalAllocateLimit\<close>, and one that is purely local.
\<close>

definition ex_tb_schema :: FlowControlSchema where
  "ex_tb_schema =
     \<lparr>fcs_Name = ''pods'', fcs_Strategy = GlobalCountLimit,
      fcs_MaxRequestsInflight = None,
      fcs_TokenBucket = Some \<lparr>tb_QPS = 10, tb_Burst = 20\<rparr>,
      fcs_GlobalMaxRequestsInflight = None,
      fcs_GlobalTokenBucket = Some \<lparr>tb_QPS = 100, tb_Burst = 200\<rparr>\<rparr>"

definition ex_mri_schema :: FlowControlSchema where
  "ex_mri_schema =
     \<lparr>fcs_Name = ''pods'', fcs_Strategy = GlobalAllocateLimit,
      fcs_MaxRequestsInflight = Some \<lparr>mri_Max = 4\<rparr>,
      fcs_TokenBucket = None,
      fcs_GlobalMaxRequestsInflight = Some \<lparr>mri_Max = 8\<rparr>,
      fcs_GlobalTokenBucket = None\<rparr>"

definition ex_local_schema :: FlowControlSchema where
  "ex_local_schema =
     \<lparr>fcs_Name = ''pods'', fcs_Strategy = OtherStrategy ''Local'',
      fcs_MaxRequestsInflight = Some \<lparr>mri_Max = 5\<rparr>,
      fcs_TokenBucket = None,
      fcs_GlobalMaxRequestsInflight = None,
      fcs_GlobalTokenBucket = None\<rparr>"

definition ex_local_tb_schema :: FlowControlSchema where
  "ex_local_tb_schema =
     \<lparr>fcs_Name = ''pods'', fcs_Strategy = OtherStrategy ''Local'',
      fcs_MaxRequestsInflight = None,
      fcs_TokenBucket = Some \<lparr>tb_QPS = 10, tb_Burst = 20\<rparr>,
      fcs_GlobalMaxRequestsInflight = None,
      fcs_GlobalTokenBucket = None\<rparr>"

text \<open>Items pushed for the target, with a requested rate or ceiling.\<close>

definition ex_tb_item :: "int \<Rightarrow> RateLimitItemConfiguration" where
  "ex_tb_item qps =
     \<lparr>rli_Name = ''pods'', rli_Strategy = GlobalCountLimit,
      rli_LimitItemDetail =
        \<lparr>lid_MaxRequestsInflight = None,
         lid_TokenBucket = Some \<lparr>tb_QPS = qps, tb_Burst = 60\<rparr>\<rparr>\<rparr>"

definition ex_mri_item :: "int \<Rightarrow> RateLimitItemConfiguration" where
  "ex_mri_item mx =
     \<lparr>rli_Name = ''pods'', rli_Strategy = GlobalAllocateLimit,
      rli_LimitItemDetail =
        \<lparr>lid_MaxRequestsInflight = Some \<lparr>mri_Max = mx\<rparr>, lid_TokenBucket = None\<rparr>\<rparr>"

text \<open>The counter-aware limiters that the reference collaborators build from them.\<close>

definition ex_tb_limiter :: "uint32 \<Rightarrow> glob_limiter" where
  "ex_tb_limiter qps =
     \<lparr>gl_limiter = \<lparr>mw_FlowControl =
        \<lparr>pl_type = TokenBucket, pl_primary = qps, pl_secondary = 60, pl_held = 0\<rparr>\<rparr>,
      gl_counterFun = Some (CountOf ''pods'' TokenBucket), gl_expect = qps, gl_current = 0\<rparr>"

definition ex_mri_limiter :: "uint32 \<Rightarrow> glob_limiter" where
  "ex_mri_limiter mx =
     \<lparr>gl_limiter = \<lparr>mw_FlowControl =
        \<lparr>pl_type = MaxRequestsInflight, pl_primary = mx, pl_secondary = 0, pl_held = 0\<rparr>\<rparr>,
      gl_counterFun = None, gl_expect = mx, gl_current = 0\<rparr>"

definition ex_remote ::
  "glob_limiter option \<Rightarrow> RateLimitItemConfiguration \<Rightarrow> glob_limiter remoteWrapper" where
  "ex_remote g item = \<lparr>GlobalCounterFlowControl = g, remoteConfig = item, stopCh = 1\<rparr>"

text \<open>
  The cache of the target once its local wrapper has synced \<open>schema\<close>, with remote wrapper
  \<open>r\<close> and the provider calls made so far.
\<close>

definition ex_cache ::
  "FlowControlSchema \<Rightarrow> glob_limiter remoteWrapper option \<Rightarrow> provider_call list \<Rightarrow>
     (prim_limiter, glob_limiter) flowControlCache" where
  "ex_cache schema r calls =
     \<lparr>local_FlowControl = Some \<lparr>mw_FlowControl = spec_NewFlowControl schema\<rparr>,
      localConfig = schema, remote = r,
      cluster = ''c1'', name = ''pods'', globalCounter = calls,
      meter = new_meter 0 0, clientID = ''7'', closedChans = {}, nextChan = 2\<rparr>"

text \<open>
  The meter after one admission and a tick one second after its creation, and after four
  more admissions and a second tick one second later.
\<close>

definition tick1_meter :: meter where
  "tick1_meter =
     \<lparr>m_stopCh = 0, uncounted = 0, currentIndex = 1,
      rateAvg = Finite (6004799503160661 / 18014398509481984),
      last' = 1000000000, counterBuckets = [Finite 1, Finite 0, Finite 0],
      inflight = 0, inflightIndex = 0, inflightAvg = Finite 0, inflightMax = 0,
      inflightBuckets = replicate InflightMeterBucketLen 0,
      inflightChan = [], debug = False\<rparr>"

definition tick2_meter :: meter where
  "tick2_meter =
     \<lparr>m_stopCh = 0, uncounted = 0, currentIndex = 2,
      rateAvg = Finite (3752999689475413 / 2251799813685248),
      last' = 2000000000, counterBuckets = [Finite 1, Finite 4, Finite 0],
      inflight = 0, inflightIndex = 0, inflightAvg = Finite 0, inflightMax = 0,
      inflightBuckets = replicate InflightMeterBucketLen 0,
      inflightChan = [], debug = False\<rparr>"

section \<open>Evaluation\<close>

lemmas ex_defs = ex_tb_schema_def ex_mri_schema_def ex_local_schema_def ex_local_tb_schema_def
  ex_tb_item_def ex_mri_item_def ex_tb_limiter_def ex_mri_limiter_def ex_remote_def
  ex_cache_def zero_RateLimitItemConfiguration_def zero_FlowControlSchema_def

lemmas spec_defs = spec_deps_def spec_GuessFlowControlSchemaType_def
  spec_GetFlowControlTypeFromLimitItem_def spec_NewFlowControl_def spec_Resize_def
  spec_newFlowControlCounter_def spec_gl_Resize_def

lemmas sync_defs = localWrapper_Sync_def localWrapper_resize_def remoteWrapper_Sync_def
  remoteWrapper_resize_def remoteWrapper_rebuild_def remoteWrapper_newFlowControl_def
  set_GlobalCounterFlowControl_def set_remoteConfig_def newMeterFlowControl_def
  toFlowControlSchema_def mw_Type_def mw_Resize_def localWrapper_Config_def
  stopRemoteWrapper_def close_chan_def EnableGlobalFlowControl_def Let_def

text \<open>Floors and ceilings of rational numerals, for computing roundings.\<close>

lemma floor_rat_numeral_div: "\<lfloor>numeral a / numeral b :: rat\<rfloor> = numeral a div numeral b"
  by (metis floor_divide_of_int_eq of_int_numeral)

lemma floor_rat_one_div: "\<lfloor>1 / numeral b :: rat\<rfloor> = 1 div numeral b"
  by (metis floor_divide_of_int_eq of_int_1 of_int_numeral)

lemma ceiling_rat_numeral_div:
  "\<lceil>numeral a / numeral b :: rat\<rceil> = - (- numeral a div numeral b)"
  using ceiling_divide_eq_div [of "numeral a" "numeral b", where ?'a = rat] by simp

lemmas f64_eval = f64_round_def round_to_grid_def ilog2_def pow2_def round_half_even_def
  bit_length.simps f64_of_int_def f64_div_def f64_add_def f64_sub_def f64_neg_def f64_val_def
  f64_neg_sign_def f64_is_finite_def Let_def floor_rat_numeral_div floor_rat_one_div
  ceiling_rat_numeral_div f64_eq_def math_NaN_def

text \<open>The float64 operations of the two ticks.\<close>

lemma f64_of_int_values:
  "f64_of_int 1000000000 = Finite 1000000000"
  "f64_of_int 1 = Finite 1"
  "f64_of_int 3 = Finite 3"
  "f64_of_int 4 = Finite 4"
  by (simp_all add: f64_eval)

lemma f64_div_exact_values:
  "f64_div (Finite 1000000000) (Finite 1000000000) = Finite 1"
  "f64_div (Finite 1) (Finite 1) = Finite 1"
  "f64_div (Finite 4) (Finite 1) = Finite 4"
  by (simp_all add: f64_eval)

lemma f64_sub_values:
  "f64_sub (Finite 1) (Finite 0) = Finite 1"
  "f64_sub (Finite 4) (Finite 0) = Finite 4"
  by (simp_all add: f64_eval)

lemma f64_div_by_3_values:
  "f64_div (Finite 1) (Finite 3) = Finite (6004799503160661 / 18014398509481984)"
  "f64_div (Finite 4) (Finite 3) = Finite (6004799503160661 / 4503599627370496)"
  "f64_div (Finite 5) (Finite 3) = Finite (7505999378950827 / 4503599627370496)"
  "f64_div (Finite 0) (Finite 3) = Finite 0"
  by (simp_all add: f64_eval)

lemma f64_add_values:
  "f64_add (Finite 0) (Finite 0) = Finite 0"
  "f64_add (Finite 0) (Finite 1) = Finite 1"
  "f64_add (Finite 1) (Finite 0) = Finite 1"
  "f64_add (Finite 1) (Finite 4) = Finite 5"
  "f64_add (Finite 5) (Finite 0) = Finite 5"
  "f64_add (Finite 0) (Finite (6004799503160661 / 18014398509481984))
     = Finite (6004799503160661 / 18014398509481984)"
  "f64_add (Finite (6004799503160661 / 18014398509481984))
           (Finite (6004799503160661 / 4503599627370496))
     = Finite (3752999689475413 / 2251799813685248)"
  by (simp_all add: f64_eval)

lemma f64_eq_NaN: "\<not> f64_eq x math_NaN"
  by (simp add: f64_eq_def math_NaN_def)

lemma f64_eq_Finite: "f64_eq (Finite p) (Finite q) = (p = q)"
  by (simp add: f64_eq_def f64_is_finite_def f64_val_def)

lemma replicate_QPSMeterBucketLen: "replicate QPSMeterBucketLen x = [x, x, x]"
  by (simp add: QPSMeterBucketLen_def numeral_3_eq_3)

lemmas tick_eval = calculateAvgRate_def latestRate_def add_def new_meter_def time_Sub_def
  time_Second_def replicate_QPSMeterBucketLen f64_of_int_values f64_div_exact_values
  f64_sub_values f64_div_by_3_values f64_add_values f64_eq_NaN Let_def

lemma first_tick: "calculateAvgRate (add (new_meter 0 0) 1) 1000000000 = Inr tick1_meter"
  by (simp add: tick_eval tick1_meter_def)

lemma second_tick: "calculateAvgRate (add tick1_meter 4) 2000000000 = Inr tick2_meter"
  by (simp add: tick_eval tick1_meter_def tick2_meter_def)

text \<open>The concrete cache is the one a gateway reaches by its first local sync.\<close>

lemma ex_cache_reached:
  "map_sum id EnableRemoteFlowControl
     (localWrapper_Sync spec_deps (NewFlowControlCache ''c1'' ''pods'' ''gw-7'' [] 0)
        ex_tb_schema)
   = Inr (ex_cache ex_tb_schema (Some (ex_remote None zero_RateLimitItemConfiguration)) [])"
  by (simp add: NewFlowControlCache_def sync_defs spec_defs ex_defs EnableRemoteFlowControl_def)

lemma ex_remote_first_sync:
  "remoteWrapper_Sync spec_deps
     (ex_cache ex_tb_schema (Some (ex_remote None zero_RateLimitItemConfiguration)) [])
     (ex_tb_item 50)
   = Inr (ex_cache ex_tb_schema (Some (ex_remote (Some (ex_tb_limiter 50)) (ex_tb_item 50)))
            [GC_Stop ''pods'', GC_Add ''pods'' TokenBucket])"
  by (simp add: sync_defs spec_defs ex_defs)

section \<open>Frame lemmas of the two \<open>Sync\<close> operations\<close>

lemma stopRemoteWrapper_localConfig:
  "stopRemoteWrapper f = Inr f' \<Longrightarrow> localConfig f' = localConfig f"
  by (auto simp: stopRemoteWrapper_def close_chan_def split: option.splits if_splits)

lemma localWrapper_resize_localConfig:
  "localWrapper_resize d f w t schema = Inr f' \<Longrightarrow> localConfig f' = localConfig f"
  by (auto simp: localWrapper_resize_def split: FlowControlSchemaType.splits option.splits)

lemma localWrapper_Sync_stores:
  "localWrapper_Sync d f schema = Inr f' \<Longrightarrow> localConfig f' = schema"
  by (auto simp: localWrapper_Sync_def Let_def split: if_splits option.splits sum.splits
      dest!: stopRemoteWrapper_localConfig localWrapper_resize_localConfig)

lemma remoteWrapper_rebuild_remote:
  "remote f = Some r \<Longrightarrow> \<exists>r'. remote (remoteWrapper_rebuild d f item t) = Some r'"
  by (simp add: remoteWrapper_rebuild_def remoteWrapper_newFlowControl_def Let_def
      set_GlobalCounterFlowControl_def)

lemma remoteWrapper_resize_remote:
  "remote f = Some r \<Longrightarrow> remoteWrapper_resize d f g item t = Inr f' \<Longrightarrow>
     \<exists>r'. remote f' = Some r'"
  using remoteWrapper_rebuild_remote [of f r d item t]
  by (auto simp: remoteWrapper_resize_def Let_def set_GlobalCounterFlowControl_def
      split: if_splits option.splits)

lemma remoteWrapper_Sync_stores:
  "remoteWrapper_Sync d f item = Inr f' \<Longrightarrow>
     \<exists>r'. remote f' = Some r' \<and> remoteConfig r' = item"
  apply (auto simp: remoteWrapper_Sync_def Let_def set_remoteConfig_def
      split: option.splits if_splits sum.splits prod.splits)
  using remoteWrapper_rebuild_remote remoteWrapper_resize_remote apply fastforce+
  done

text \<open>
  On the resize path of \<open>localWrapper.Sync\<close> (a limiter of the new type is held) a schema
  that does not enable global flow control tears the remote wrapper down.
\<close>

lemma localWrapper_Sync_same_type_teardown:
  assumes "schema \<noteq> localConfig f" and "local_FlowControl f = Some w"
    and "mw_Type d w = GuessFlowControlSchemaType d schema"
    and "\<not> EnableGlobalFlowControl schema"
    and "localWrapper_Sync d f schema = Inr f'"
  shows "remote f' = None \<and> (\<forall>r. remote f = Some r \<longrightarrow> stopCh r \<in> closedChans f')"
  using assms
  by (auto simp: localWrapper_Sync_def Let_def localWrapper_resize_def stopRemoteWrapper_def
      close_chan_def
      split: sum.splits option.splits if_splits FlowControlSchemaType.splits)

lemma sum_list_map_update:
  "i < length xs \<Longrightarrow>
     sum_list (map f (xs[i := x])) = sum_list (map f xs) - f (xs ! i) + (f x :: rat)"
  by (induction xs arbitrary: i) (auto split: nat.splits)

text \<open>
  \<open>remoteWrapper.Sync\<close> past its first two tests, and the two resize cases of its switch.
\<close>

lemma remoteWrapper_Sync_to_resize:
  assumes "remote f = Some r" and "limitItem \<noteq> remoteConfig r"
    and "GlobalCounterFlowControl r = Some g"
    and "gfc_Type d g = GetFlowControlTypeFromLimitItem d (rli_LimitItemDetail limitItem)"
    and "rli_Strategy (remoteConfig r) = rli_Strategy limitItem"
  shows "remoteWrapper_Sync d f limitItem =
     (case remoteWrapper_resize d f g limitItem
             (GetFlowControlTypeFromLimitItem d (rli_LimitItemDetail limitItem)) of
        Inl (e, f1) \<Rightarrow> Inl (e, set_remoteConfig f1 limitItem)
      | Inr f1 \<Rightarrow> Inr (set_remoteConfig f1 limitItem))"
  using assms by (simp add: remoteWrapper_Sync_def Let_def)

lemma remoteWrapper_resize_MaxRequestsInflight:
  assumes "lid_MaxRequestsInflight (rli_LimitItemDetail limitItem) = Some m"
    and "gfc_Type d g = MaxRequestsInflight"
  shows "remoteWrapper_resize d f g limitItem newType =
     (case fcs_GlobalMaxRequestsInflight (localConfig f) of
        None \<Rightarrow> Inl (NilPointerDereference, f)
      | Some gm \<Rightarrow>
          Inr (set_GlobalCounterFlowControl f
                 (snd (gfc_Resize d g (word_of_int (min (mri_Max m) (mri_Max gm))) 0))))"
  using assms
  by (simp add: remoteWrapper_resize_def localWrapper_Config_def Let_def min_def
      split: option.splits)

lemma remoteWrapper_resize_TokenBucket:
  assumes "lid_TokenBucket (rli_LimitItemDetail limitItem) = Some t"
    and "gfc_Type d g = TokenBucket"
  shows "remoteWrapper_resize d f g limitItem newType =
     (case fcs_GlobalTokenBucket (localConfig f) of
        None \<Rightarrow> Inl (NilPointerDereference, f)
      | Some gt \<Rightarrow>
          Inr (set_GlobalCounterFlowControl f
                 (snd (gfc_Resize d g (word_of_int (min (tb_QPS t) (tb_QPS gt)))
                         (word_of_int (tb_Burst t))))))"
  using assms
  by (simp add: remoteWrapper_resize_def localWrapper_Config_def Let_def min_def
      split: option.splits)

lemma set_both_remote:
  "remote f = Some r \<Longrightarrow>
     set_remoteConfig (set_GlobalCounterFlowControl f g) limitItem =
       f\<lparr>remote := Some (r\<lparr>GlobalCounterFlowControl := Some g, remoteConfig := limitItem\<rparr>)\<rparr>"
  by (simp add: set_remoteConfig_def set_GlobalCounterFlowControl_def)

text \<open>The conversion \<open>uint32(k)\<close> keeps a value that fits.\<close>

lemma uint_word_of_int_in_range:
  "0 \<le> k \<Longrightarrow> k < 2 ^ 32 \<Longrightarrow> uint (word_of_int k :: uint32) = k"
  by (simp add: uint_word_of_int)

section \<open>The claims\<close>

text \<open>
  C1.  After \<open>localWrapper.Sync\<close> with a schema that differs from the stored one, a schema
  that does not enable global flow control leaves no remote wrapper, whether the limiter
  was rebuilt or resized.  The code does that on the resize path only (lemma
  \<open>localWrapper_Sync_same_type_teardown\<close>).  On the rebuild path, taken when no limiter
  is held or the held one is of another type, \<open>Sync\<close> returns before it looks at the
  strategy: it stores the schema and the new limiter and changes nothing else, so the
  remote wrapper and its stop channel stay as they were, whatever the schema says.
\<close>

theorem localWrapper_Sync_rebuild_keeps_remote:
  assumes "schema \<noteq> localConfig f"
    and "local_FlowControl f = None
         \<or> (\<exists>w. local_FlowControl f = Some w
               \<and> mw_Type d w \<noteq> GuessFlowControlSchemaType d schema)"
  shows "localWrapper_Sync d f schema =
     Inr (f\<lparr>local_FlowControl := Some (newMeterFlowControl d schema),
            localConfig := schema\<rparr>)"
  using assms by (auto simp: localWrapper_Sync_def Let_def)

text \<open>
  The local wrapper holds a token-bucket limiter under \<open>GlobalCountLimit\<close>, the remote
  wrapper is active, and the new schema is a local in-flight ceiling, which does not
  enable global flow control: \<open>Sync\<close> rebuilds the local limiter and returns with the
  remote wrapper in place and its stop channel open.
\<close>

theorem localWrapper_Sync_rebuild_keeps_remote_witness:
  "ex_local_schema
     \<noteq> localConfig (ex_cache ex_tb_schema
                       (Some (ex_remote (Some (ex_tb_limiter 50)) (ex_tb_item 50)))
                       [GC_Stop ''pods'', GC_Add ''pods'' TokenBucket])
   \<and> \<not> EnableGlobalFlowControl ex_local_schema
   \<and> localWrapper_Sync spec_deps
        (ex_cache ex_tb_schema (Some (ex_remote (Some (ex_tb_limiter 50)) (ex_tb_item 50)))
           [GC_Stop ''pods'', GC_Add ''pods'' TokenBucket])
        ex_local_schema
      = Inr (ex_cache ex_local_schema
               (Some (ex_remote (Some (ex_tb_limiter 50)) (ex_tb_item 50)))
               [GC_Stop ''pods'', GC_Add ''pods'' TokenBucket])
   \<and> remote (ex_cache ex_local_schema
               (Some (ex_remote (Some (ex_tb_limiter 50)) (ex_tb_item 50)))
               [GC_Stop ''pods'', GC_Add ''pods'' TokenBucket])
      = Some (ex_remote (Some (ex_tb_limiter 50)) (ex_tb_item 50))
   \<and> stopCh (ex_remote (Some (ex_tb_limiter 50)) (ex_tb_item 50))
      \<notin> closedChans (ex_cache ex_local_schema
                        (Some (ex_remote (Some (ex_tb_limiter 50)) (ex_tb_item 50)))
                        [GC_Stop ''pods'', GC_Add ''pods'' TokenBucket])"
proof -
  let ?F = "ex_cache ex_tb_schema (Some (ex_remote (Some (ex_tb_limiter 50)) (ex_tb_item 50)))
              [GC_Stop ''pods'', GC_Add ''pods'' TokenBucket]"
  have a: "ex_local_schema \<noteq> localConfig ?F"
    "local_FlowControl ?F = None
       \<or> (\<exists>w. local_FlowControl ?F = Some w
             \<and> mw_Type spec_deps w \<noteq> GuessFlowControlSchemaType spec_deps ex_local_schema)"
    by (simp_all add: spec_defs ex_defs mw_Type_def)
  from localWrapper_Sync_rebuild_keeps_remote [OF a]
  have 1: "localWrapper_Sync spec_deps ?F ex_local_schema
      = Inr (ex_cache ex_local_schema
               (Some (ex_remote (Some (ex_tb_limiter 50)) (ex_tb_item 50)))
               [GC_Stop ''pods'', GC_Add ''pods'' TokenBucket])"
    by (simp add: spec_defs ex_defs newMeterFlowControl_def)
  have 2: "\<not> EnableGlobalFlowControl ex_local_schema"
    by (simp add: EnableGlobalFlowControl_def ex_local_schema_def)
  from a(1) 1 2 show ?thesis
    by (simp add: ex_cache_def ex_remote_def)
qed

text \<open>
  C2, as stated, fails: the claim has a pending value overwritten by the new one.  Two
  admissions with no receive in between leave the first value, 1, in the channel; the
  second value, 2, is not sent.
\<close>

theorem addInflight_pending_not_overwritten:
  "inflightChan (addInflight (new_meter 0 0) 1) = [1]
   \<and> inflight (addInflight (addInflight (new_meter 0 0) 1) 1) = 2
   \<and> inflightChan (addInflight (addInflight (new_meter 0 0) 1) 1) = [1]
   \<and> inflightChan (addInflight (addInflight (new_meter 0 0) 1) 1) \<noteq> [2]"
  by (simp add: addInflight_def Let_def inflightChan_cap_def new_meter_def)

text \<open>
  C2, amended.  \<open>addInflight\<close> adjusts the in-flight counter by the delta (an \<open>int32\<close>
  addition, wrapping) and sends the new value on the channel only when the buffer is
  empty; when a value is pending, the pending value stays and the new one is dropped, and
  nothing is queued behind it.  No other field of the meter changes.
\<close>

theorem addInflight_drops_when_full:
  "inflight (addInflight m a) = inflight m + a
   \<and> inflightChan (addInflight m a)
       = (if inflightChan m = [] then [inflight m + a] else inflightChan m)
   \<and> addInflight m a
       = m\<lparr>inflight := inflight m + a,
            inflightChan := (if inflightChan m = [] then [inflight m + a] else inflightChan m)\<rparr>
   \<and> (length (inflightChan m) \<le> inflightChan_cap \<longrightarrow>
        length (inflightChan (addInflight m a)) \<le> inflightChan_cap)"
  by (simp add: addInflight_def Let_def inflightChan_cap_def)

text \<open>An empty buffer, a full buffer, and the counter at the largest \<open>int32\<close>.\<close>

theorem addInflight_drops_when_full_witness:
  "inflight (addInflight (new_meter 0 0) 1) = 1
   \<and> inflightChan (addInflight (new_meter 0 0) 1) = [1]
   \<and> inflight (addInflight ((new_meter 0 0)\<lparr>inflight := 1, inflightChan := [1]\<rparr>) 1) = 2
   \<and> inflightChan (addInflight ((new_meter 0 0)\<lparr>inflight := 1, inflightChan := [1]\<rparr>) 1) = [1]
   \<and> inflight (addInflight ((new_meter 0 0)\<lparr>inflight := 2147483647\<rparr>) 1) = - 2147483648"
  using addInflight_drops_when_full [of "new_meter 0 0" 1]
    addInflight_drops_when_full [of "(new_meter 0 0)\<lparr>inflight := 1, inflightChan := [1]\<rparr>" 1]
    addInflight_drops_when_full [of "(new_meter 0 0)\<lparr>inflight := 2147483647\<rparr>" 1]
  by (simp add: new_meter_def)

text \<open>
  C3, as stated, fails: the claim has the limiter resized to the minimum of the requested
  and the local value, and to the local value whenever the request exceeds it.  The
  comparison is on the signed values and \<open>Resize\<close> receives \<open>uint32\<close> of the result.  A
  token-bucket item asking for \<open>-5\<close> under a local global rate of 100 resizes the limiter
  to 4294967291, above the local rate; an item asking for 20 under a local global rate of
  \<open>-1\<close> exceeds it and resizes the limiter to 4294967295, not to the local rate.
\<close>

theorem remoteWrapper_Sync_resize_negative_not_clamped:
  "remoteWrapper_Sync spec_deps
     (ex_cache ex_tb_schema (Some (ex_remote (Some (ex_tb_limiter 50)) (ex_tb_item 50)))
        [GC_Stop ''pods'', GC_Add ''pods'' TokenBucket])
     (ex_tb_item (- 5))
   = Inr (ex_cache ex_tb_schema
            (Some (ex_remote (Some (ex_tb_limiter 4294967291)) (ex_tb_item (- 5))))
            [GC_Stop ''pods'', GC_Add ''pods'' TokenBucket])
   \<and> min (- 5) (100 :: int) = - 5
   \<and> uint (4294967291 :: uint32) \<noteq> min (- 5) 100
   \<and> \<not> uint (4294967291 :: uint32) \<le> 100
   \<and> remoteWrapper_Sync spec_deps
     (ex_cache (ex_tb_schema\<lparr>fcs_GlobalTokenBucket := Some \<lparr>tb_QPS = - 1, tb_Burst = 200\<rparr>\<rparr>)
        (Some (ex_remote (Some (ex_tb_limiter 50)) (ex_tb_item 50)))
        [GC_Stop ''pods'', GC_Add ''pods'' TokenBucket])
     (ex_tb_item 20)
   = Inr (ex_cache (ex_tb_schema\<lparr>fcs_GlobalTokenBucket := Some \<lparr>tb_QPS = - 1, tb_Burst = 200\<rparr>\<rparr>)
            (Some (ex_remote (Some (ex_tb_limiter 4294967295)) (ex_tb_item 20)))
            [GC_Stop ''pods'', GC_Add ''pods'' TokenBucket])
   \<and> (- 1 :: int) < 20
   \<and> uint (4294967295 :: uint32) \<noteq> - 1"
  by (simp add: sync_defs spec_defs ex_defs)

text \<open>
  C3, amended.  When \<open>remoteWrapper.Sync\<close> takes the resize branch (a new item, a held
  limiter of the item's type, the stored strategy), and the local configuration carries the
  matching global detail, the limiter is resized with \<open>uint32(min(item.max, local.max))\<close>
  and \<open>0\<close> for \<open>MaxRequestsInflight\<close>, and with \<open>uint32(min(item.qps, local.qps))\<close> and
  \<open>uint32(item.burst)\<close> for \<open>TokenBucket\<close>; the item is stored; nothing else changes.
  When the minimum lies between 0 and \<open>2^32 - 1\<close> the effective value is that minimum; in
  particular a request above a local value in that range gives the local value.  A burst in
  that range is taken from the item as it is.
\<close>

theorem remoteWrapper_Sync_resize_clamped_in_range:
  assumes "remote f = Some r" and "limitItem \<noteq> remoteConfig r"
    and "GlobalCounterFlowControl r = Some g"
    and "gfc_Type d g = GetFlowControlTypeFromLimitItem d (rli_LimitItemDetail limitItem)"
    and "rli_Strategy (remoteConfig r) = rli_Strategy limitItem"
  shows "(lid_MaxRequestsInflight (rli_LimitItemDetail limitItem) = Some m
            \<and> gfc_Type d g = MaxRequestsInflight
            \<and> fcs_GlobalMaxRequestsInflight (localConfig f) = Some gm \<longrightarrow>
          remoteWrapper_Sync d f limitItem =
            Inr (f\<lparr>remote := Some (r\<lparr>GlobalCounterFlowControl :=
                      Some (snd (gfc_Resize d g (word_of_int (min (mri_Max m) (mri_Max gm))) 0)),
                    remoteConfig := limitItem\<rparr>)\<rparr>)
          \<and> (0 \<le> min (mri_Max m) (mri_Max gm) \<and> min (mri_Max m) (mri_Max gm) < 2 ^ 32 \<longrightarrow>
               uint (word_of_int (min (mri_Max m) (mri_Max gm)) :: uint32)
                 = min (mri_Max m) (mri_Max gm))
          \<and> (mri_Max gm < mri_Max m \<and> 0 \<le> mri_Max gm \<and> mri_Max gm < 2 ^ 32 \<longrightarrow>
               uint (word_of_int (min (mri_Max m) (mri_Max gm)) :: uint32) = mri_Max gm))
       \<and> (lid_TokenBucket (rli_LimitItemDetail limitItem) = Some t
            \<and> gfc_Type d g = TokenBucket
            \<and> fcs_GlobalTokenBucket (localConfig f) = Some gt \<longrightarrow>
          remoteWrapper_Sync d f limitItem =
            Inr (f\<lparr>remote := Some (r\<lparr>GlobalCounterFlowControl :=
                      Some (snd (gfc_Resize d g (word_of_int (min (tb_QPS t) (tb_QPS gt)))
                                   (word_of_int (tb_Burst t)))),
                    remoteConfig := limitItem\<rparr>)\<rparr>)
          \<and> (0 \<le> min (tb_QPS t) (tb_QPS gt) \<and> min (tb_QPS t) (tb_QPS gt) < 2 ^ 32 \<longrightarrow>
               uint (word_of_int (min (tb_QPS t) (tb_QPS gt)) :: uint32)
                 = min (tb_QPS t) (tb_QPS gt))
          \<and> (tb_QPS gt < tb_QPS t \<and> 0 \<le> tb_QPS gt \<and> tb_QPS gt < 2 ^ 32 \<longrightarrow>
               uint (word_of_int (min (tb_QPS t) (tb_QPS gt)) :: uint32) = tb_QPS gt)
          \<and> (0 \<le> tb_Burst t \<and> tb_Burst t < 2 ^ 32 \<longrightarrow>
               uint (word_of_int (tb_Burst t) :: uint32) = tb_Burst t))"
proof (intro conjI impI)
  assume h: "lid_MaxRequestsInflight (rli_LimitItemDetail limitItem) = Some m
            \<and> gfc_Type d g = MaxRequestsInflight
            \<and> fcs_GlobalMaxRequestsInflight (localConfig f) = Some gm"
  then have "remoteWrapper_resize d f g limitItem
               (GetFlowControlTypeFromLimitItem d (rli_LimitItemDetail limitItem)) =
             Inr (set_GlobalCounterFlowControl f
                    (snd (gfc_Resize d g (word_of_int (min (mri_Max m) (mri_Max gm))) 0)))"
    by (simp add: remoteWrapper_resize_MaxRequestsInflight)
  then show "remoteWrapper_Sync d f limitItem =
            Inr (f\<lparr>remote := Some (r\<lparr>GlobalCounterFlowControl :=
                      Some (snd (gfc_Resize d g (word_of_int (min (mri_Max m) (mri_Max gm))) 0)),
                    remoteConfig := limitItem\<rparr>)\<rparr>)"
    by (simp add: remoteWrapper_Sync_to_resize [OF assms] set_both_remote [OF assms(1)])
next
  assume "0 \<le> min (mri_Max m) (mri_Max gm) \<and> min (mri_Max m) (mri_Max gm) < 2 ^ 32"
  then show "uint (word_of_int (min (mri_Max m) (mri_Max gm)) :: uint32)
                 = min (mri_Max m) (mri_Max gm)"
    by (simp add: uint_word_of_int_in_range)
next
  assume "mri_Max gm < mri_Max m \<and> 0 \<le> mri_Max gm \<and> mri_Max gm < 2 ^ 32"
  then show "uint (word_of_int (min (mri_Max m) (mri_Max gm)) :: uint32) = mri_Max gm"
    by (simp add: uint_word_of_int_in_range min_def)
next
  assume h: "lid_TokenBucket (rli_LimitItemDetail limitItem) = Some t
            \<and> gfc_Type d g = TokenBucket
            \<and> fcs_GlobalTokenBucket (localConfig f) = Some gt"
  then have "remoteWrapper_resize d f g limitItem
               (GetFlowControlTypeFromLimitItem d (rli_LimitItemDetail limitItem)) =
             Inr (set_GlobalCounterFlowControl f
                    (snd (gfc_Resize d g (word_of_int (min (tb_QPS t) (tb_QPS gt)))
                            (word_of_int (tb_Burst t)))))"
    by (simp add: remoteWrapper_resize_TokenBucket)
  then show "remoteWrapper_Sync d f limitItem =
            Inr (f\<lparr>remote := Some (r\<lparr>GlobalCounterFlowControl :=
                      Some (snd (gfc_Resize d g (word_of_int (min (tb_QPS t) (tb_QPS gt)))
                                   (word_of_int (tb_Burst t)))),
                    remoteConfig := limitItem\<rparr>)\<rparr>)"
    by (simp add: remoteWrapper_Sync_to_resize [OF assms] set_both_remote [OF assms(1)])
next
  assume "0 \<le> min (tb_QPS t) (tb_QPS gt) \<and> min (tb_QPS t) (tb_QPS gt) < 2 ^ 32"
  then show "uint (word_of_int (min (tb_QPS t) (tb_QPS gt)) :: uint32)
                 = min (tb_QPS t) (tb_QPS gt)"
    by (simp add: uint_word_of_int_in_range)
next
  assume "tb_QPS gt < tb_QPS t \<and> 0 \<le> tb_QPS gt \<and> tb_QPS gt < 2 ^ 32"
  then show "uint (word_of_int (min (tb_QPS t) (tb_QPS gt)) :: uint32) = tb_QPS gt"
    by (simp add: uint_word_of_int_in_range min_def)
next
  assume "0 \<le> tb_Burst t \<and> tb_Burst t < 2 ^ 32"
  then show "uint (word_of_int (tb_Burst t) :: uint32) = tb_Burst t"
    by (simp add: uint_word_of_int_in_range)
qed

text \<open>
  A token-bucket item asking for 500 under a local global rate of 100, and an in-flight
  item asking for 20 under a local global ceiling of 8.
\<close>

theorem remoteWrapper_Sync_resize_clamped_in_range_witness:
  "remoteWrapper_Sync spec_deps
     (ex_cache ex_tb_schema (Some (ex_remote (Some (ex_tb_limiter 50)) (ex_tb_item 50)))
        [GC_Stop ''pods'', GC_Add ''pods'' TokenBucket])
     (ex_tb_item 500)
   = Inr (ex_cache ex_tb_schema (Some (ex_remote (Some (ex_tb_limiter 100)) (ex_tb_item 500)))
        [GC_Stop ''pods'', GC_Add ''pods'' TokenBucket])
   \<and> uint (word_of_int (min 500 100) :: uint32) = 100
   \<and> uint (word_of_int 60 :: uint32) = 60
   \<and> remoteWrapper_Sync spec_deps
     (ex_cache ex_mri_schema (Some (ex_remote (Some (ex_mri_limiter 6)) (ex_mri_item 6)))
        [GC_Stop ''pods''])
     (ex_mri_item 20)
   = Inr (ex_cache ex_mri_schema (Some (ex_remote (Some (ex_mri_limiter 8)) (ex_mri_item 20)))
        [GC_Stop ''pods''])
   \<and> uint (word_of_int (min 20 8) :: uint32) = 8"
proof -
  let ?F = "ex_cache ex_tb_schema (Some (ex_remote (Some (ex_tb_limiter 50)) (ex_tb_item 50)))
        [GC_Stop ''pods'', GC_Add ''pods'' TokenBucket]"
  let ?R = "ex_remote (Some (ex_tb_limiter 50)) (ex_tb_item 50)"
  let ?t = "\<lparr>tb_QPS = 500, tb_Burst = 60\<rparr>"
  let ?gt = "\<lparr>tb_QPS = 100, tb_Burst = 200\<rparr>"
  have a: "remote ?F = Some ?R" "ex_tb_item 500 \<noteq> remoteConfig ?R"
    "GlobalCounterFlowControl ?R = Some (ex_tb_limiter 50)"
    "gfc_Type spec_deps (ex_tb_limiter 50)
       = GetFlowControlTypeFromLimitItem spec_deps (rli_LimitItemDetail (ex_tb_item 500))"
    "rli_Strategy (remoteConfig ?R) = rli_Strategy (ex_tb_item 500)"
    by (simp_all add: spec_defs ex_defs)
  have b: "lid_TokenBucket (rli_LimitItemDetail (ex_tb_item 500)) = Some ?t
      \<and> gfc_Type spec_deps (ex_tb_limiter 50) = TokenBucket
      \<and> fcs_GlobalTokenBucket (localConfig ?F) = Some ?gt"
    by (simp add: spec_defs ex_defs)
  let ?G = "ex_cache ex_mri_schema (Some (ex_remote (Some (ex_mri_limiter 6)) (ex_mri_item 6)))
        [GC_Stop ''pods'']"
  let ?S = "ex_remote (Some (ex_mri_limiter 6)) (ex_mri_item 6)"
  let ?m = "\<lparr>mri_Max = 20\<rparr>"
  let ?gm = "\<lparr>mri_Max = 8\<rparr>"
  have c: "remote ?G = Some ?S" "ex_mri_item 20 \<noteq> remoteConfig ?S"
    "GlobalCounterFlowControl ?S = Some (ex_mri_limiter 6)"
    "gfc_Type spec_deps (ex_mri_limiter 6)
       = GetFlowControlTypeFromLimitItem spec_deps (rli_LimitItemDetail (ex_mri_item 20))"
    "rli_Strategy (remoteConfig ?S) = rli_Strategy (ex_mri_item 20)"
    by (simp_all add: spec_defs ex_defs)
  have e: "lid_MaxRequestsInflight (rli_LimitItemDetail (ex_mri_item 20)) = Some ?m
      \<and> gfc_Type spec_deps (ex_mri_limiter 6) = MaxRequestsInflight
      \<and> fcs_GlobalMaxRequestsInflight (localConfig ?G) = Some ?gm"
    by (simp add: spec_defs ex_defs)
  have rng: "tb_QPS ?gt < tb_QPS ?t \<and> 0 \<le> tb_QPS ?gt \<and> tb_QPS ?gt < 2 ^ 32"
    "0 \<le> tb_Burst ?t \<and> tb_Burst ?t < 2 ^ 32"
    "mri_Max ?gm < mri_Max ?m \<and> 0 \<le> mri_Max ?gm \<and> mri_Max ?gm < 2 ^ 32"
    by simp_all
  note tb = remoteWrapper_Sync_resize_clamped_in_range
              [OF a, THEN conjunct2, rule_format, OF b]
  note mri = remoteWrapper_Sync_resize_clamped_in_range
              [OF c, THEN conjunct1, rule_format, OF e]
  from tb [THEN conjunct1]
  have 1: "remoteWrapper_Sync spec_deps ?F (ex_tb_item 500)
     = Inr (ex_cache ex_tb_schema (Some (ex_remote (Some (ex_tb_limiter 100)) (ex_tb_item 500)))
        [GC_Stop ''pods'', GC_Add ''pods'' TokenBucket])"
    by (simp add: spec_defs ex_defs)
  from tb [THEN conjunct2, THEN conjunct2, THEN conjunct1, rule_format, OF rng(1)]
  have 2: "uint (word_of_int (min 500 100) :: uint32) = 100"
    by simp
  from tb [THEN conjunct2, THEN conjunct2, THEN conjunct2, rule_format, OF rng(2)]
  have 3: "uint (word_of_int 60 :: uint32) = 60"
    by simp
  from mri [THEN conjunct1]
  have 4: "remoteWrapper_Sync spec_deps ?G (ex_mri_item 20)
     = Inr (ex_cache ex_mri_schema (Some (ex_remote (Some (ex_mri_limiter 8)) (ex_mri_item 20)))
        [GC_Stop ''pods''])"
    by (simp add: spec_defs ex_defs)
  from mri [THEN conjunct2, THEN conjunct2, rule_format, OF rng(3)]
  have 5: "uint (word_of_int (min 20 8) :: uint32) = 8"
    by simp
  from 1 2 3 4 5 show ?thesis by (intro conjI)
qed

text \<open>
  C4.  For every \<open>remoteWrapper.Sync\<close> that reconciles (the item differs from the stored
  one, so the call is past the equality test), where the inner limiter is uninitialised,
  or its type differs from the type derived from the item's detail, or the stored strategy
  differs from the item's: the rebuild path is taken.  The prior registration for the
  target name is removed from the provider (\<open>Stop(item.Name)\<close>), the new limiter is
  \<open>newFlowControlCounter\<close> of an instrumented limiter built from
  \<open>toFlowControlSchema(item)\<close>, a new registration is made (\<open>Add(item.Name, type, _)\<close>) if
  and only if the strategy is \<open>GlobalCountLimit\<close> (the limiter then gets that counter's
  \<open>Count\<close>, otherwise none), and the item is stored.
\<close>

theorem remoteWrapper_Sync_rebuild:
  assumes "remote f = Some r" and "limitItem \<noteq> remoteConfig r"
    and "GlobalCounterFlowControl r = None
         \<or> (\<exists>g. GlobalCounterFlowControl r = Some g
               \<and> (gfc_Type d g \<noteq> GetFlowControlTypeFromLimitItem d (rli_LimitItemDetail limitItem)
                    \<or> rli_Strategy (remoteConfig r) \<noteq> rli_Strategy limitItem))"
  shows "remoteWrapper_Sync d f limitItem =
     Inr (f\<lparr>remote := Some
               \<lparr>GlobalCounterFlowControl =
                  Some (newFlowControlCounter d limitItem
                          (newMeterFlowControl d (toFlowControlSchema limitItem))
                          (if rli_Strategy limitItem = GlobalCountLimit
                           then Some (CountOf (rli_Name limitItem)
                                  (GetFlowControlTypeFromLimitItem d (rli_LimitItemDetail limitItem)))
                           else None)),
                remoteConfig = limitItem, stopCh = stopCh r\<rparr>,
            globalCounter :=
              globalCounter f @ GC_Stop (rli_Name limitItem) #
                (if rli_Strategy limitItem = GlobalCountLimit
                 then [GC_Add (rli_Name limitItem)
                         (GetFlowControlTypeFromLimitItem d (rli_LimitItemDetail limitItem))]
                 else [])\<rparr>)"
proof -
  let ?t = "GetFlowControlTypeFromLimitItem d (rli_LimitItemDetail limitItem)"
  have "remoteWrapper_Sync d f limitItem =
          Inr (set_remoteConfig (remoteWrapper_rebuild d f limitItem ?t) limitItem)"
    using assms by (auto simp: remoteWrapper_Sync_def Let_def)
  also have "set_remoteConfig (remoteWrapper_rebuild d f limitItem ?t) limitItem =
     f\<lparr>remote := Some
               \<lparr>GlobalCounterFlowControl =
                  Some (newFlowControlCounter d limitItem
                          (newMeterFlowControl d (toFlowControlSchema limitItem))
                          (if rli_Strategy limitItem = GlobalCountLimit
                           then Some (CountOf (rli_Name limitItem) ?t)
                           else None)),
                remoteConfig = limitItem, stopCh = stopCh r\<rparr>,
            globalCounter :=
              globalCounter f @ GC_Stop (rli_Name limitItem) #
                (if rli_Strategy limitItem = GlobalCountLimit
                 then [GC_Add (rli_Name limitItem) ?t]
                 else [])\<rparr>"
    using assms(1)
    by (simp add: remoteWrapper_rebuild_def remoteWrapper_newFlowControl_def Let_def
        set_GlobalCounterFlowControl_def set_remoteConfig_def)
  finally show ?thesis .
qed

text \<open>
  The first item of a fresh remote wrapper under \<open>GlobalCountLimit\<close>, and a change of
  type and strategy to \<open>GlobalAllocateLimit\<close>, which registers nothing.
\<close>

theorem remoteWrapper_Sync_rebuild_witness:
  "remoteWrapper_Sync spec_deps
     (ex_cache ex_tb_schema (Some (ex_remote None zero_RateLimitItemConfiguration)) [])
     (ex_tb_item 50)
   = Inr (ex_cache ex_tb_schema (Some (ex_remote (Some (ex_tb_limiter 50)) (ex_tb_item 50)))
        [GC_Stop ''pods'', GC_Add ''pods'' TokenBucket])
   \<and> remoteWrapper_Sync spec_deps
     (ex_cache ex_mri_schema (Some (ex_remote (Some (ex_tb_limiter 50)) (ex_tb_item 50)))
        [GC_Stop ''pods'', GC_Add ''pods'' TokenBucket])
     (ex_mri_item 6)
   = Inr (ex_cache ex_mri_schema (Some (ex_remote (Some (ex_mri_limiter 6)) (ex_mri_item 6)))
        [GC_Stop ''pods'', GC_Add ''pods'' TokenBucket, GC_Stop ''pods''])"
proof -
  let ?F = "ex_cache ex_tb_schema (Some (ex_remote None zero_RateLimitItemConfiguration)) []"
  let ?R = "ex_remote None zero_RateLimitItemConfiguration"
  have a: "remote ?F = Some ?R" "ex_tb_item 50 \<noteq> remoteConfig ?R"
    "GlobalCounterFlowControl ?R = None
         \<or> (\<exists>g. GlobalCounterFlowControl ?R = Some g
               \<and> (gfc_Type spec_deps g
                     \<noteq> GetFlowControlTypeFromLimitItem spec_deps (rli_LimitItemDetail (ex_tb_item 50))
                    \<or> rli_Strategy (remoteConfig ?R) \<noteq> rli_Strategy (ex_tb_item 50)))"
    by (simp_all add: ex_defs)
  let ?G = "ex_cache ex_mri_schema (Some (ex_remote (Some (ex_tb_limiter 50)) (ex_tb_item 50)))
        [GC_Stop ''pods'', GC_Add ''pods'' TokenBucket]"
  let ?S = "ex_remote (Some (ex_tb_limiter 50)) (ex_tb_item 50)"
  have b: "remote ?G = Some ?S" "ex_mri_item 6 \<noteq> remoteConfig ?S"
    "GlobalCounterFlowControl ?S = None
         \<or> (\<exists>g. GlobalCounterFlowControl ?S = Some g
               \<and> (gfc_Type spec_deps g
                     \<noteq> GetFlowControlTypeFromLimitItem spec_deps (rli_LimitItemDetail (ex_mri_item 6))
                    \<or> rli_Strategy (remoteConfig ?S) \<noteq> rli_Strategy (ex_mri_item 6)))"
    by (simp_all add: spec_defs ex_defs)
  from remoteWrapper_Sync_rebuild [OF a]
  have 1: "remoteWrapper_Sync spec_deps ?F (ex_tb_item 50)
     = Inr (ex_cache ex_tb_schema (Some (ex_remote (Some (ex_tb_limiter 50)) (ex_tb_item 50)))
          [GC_Stop ''pods'', GC_Add ''pods'' TokenBucket])"
    by (simp add: spec_defs ex_defs newMeterFlowControl_def toFlowControlSchema_def)
  from remoteWrapper_Sync_rebuild [OF b]
  have 2: "remoteWrapper_Sync spec_deps ?G (ex_mri_item 6)
     = Inr (ex_cache ex_mri_schema (Some (ex_remote (Some (ex_mri_limiter 6)) (ex_mri_item 6)))
          [GC_Stop ''pods'', GC_Add ''pods'' TokenBucket, GC_Stop ''pods''])"
    by (simp add: spec_defs ex_defs newMeterFlowControl_def toFlowControlSchema_def)
  from 1 2 show ?thesis by simp
qed

text \<open>
  C5.  A remote wrapper with no inner limiter answers \<open>ExpectToken\<close> and \<open>CurrentToken\<close>
  with \<open>-1\<close> and \<open>SetLimit\<close> with \<open>false\<close>, and is left as it was; with an inner limiter
  all three calls are the inner limiter's.
\<close>

theorem remoteWrapper_sentinels:
  "(GlobalCounterFlowControl r = None \<longrightarrow>
      remoteWrapper_ExpectToken d r = - 1 \<and> remoteWrapper_CurrentToken d r = - 1
      \<and> remoteWrapper_SetLimit d r res = (False, r))
   \<and> (\<forall>g. GlobalCounterFlowControl r = Some g \<longrightarrow>
      remoteWrapper_ExpectToken d r = gfc_ExpectToken d g
      \<and> remoteWrapper_CurrentToken d r = gfc_CurrentToken d g
      \<and> remoteWrapper_SetLimit d r res =
          (fst (gfc_SetLimit d g res),
           r\<lparr>GlobalCounterFlowControl := Some (snd (gfc_SetLimit d g res))\<rparr>))"
  by (simp add: remoteWrapper_ExpectToken_def remoteWrapper_CurrentToken_def
        remoteWrapper_SetLimit_def split: prod.splits)

text \<open>A fresh remote wrapper, and one holding a token-bucket limiter.\<close>

theorem remoteWrapper_sentinels_witness:
  "GlobalCounterFlowControl (ex_remote None zero_RateLimitItemConfiguration) = None
   \<and> sint (remoteWrapper_ExpectToken spec_deps (ex_remote None zero_RateLimitItemConfiguration)) = - 1
   \<and> sint (remoteWrapper_CurrentToken spec_deps (ex_remote None zero_RateLimitItemConfiguration)) = - 1
   \<and> remoteWrapper_SetLimit spec_deps (ex_remote None zero_RateLimitItemConfiguration) 7
       = (False, ex_remote None zero_RateLimitItemConfiguration)
   \<and> GlobalCounterFlowControl (ex_remote (Some (ex_tb_limiter 50)) (ex_tb_item 50))
       = Some (ex_tb_limiter 50)
   \<and> remoteWrapper_ExpectToken spec_deps (ex_remote (Some (ex_tb_limiter 50)) (ex_tb_item 50)) = 50
   \<and> remoteWrapper_CurrentToken spec_deps (ex_remote (Some (ex_tb_limiter 50)) (ex_tb_item 50)) = 0
   \<and> remoteWrapper_SetLimit spec_deps (ex_remote (Some (ex_tb_limiter 50)) (ex_tb_item 50)) 7
       = (True, ex_remote (Some ((ex_tb_limiter 50)\<lparr>gl_current := 7\<rparr>)) (ex_tb_item 50))"
  using remoteWrapper_sentinels [of "ex_remote None zero_RateLimitItemConfiguration" spec_deps 7]
    remoteWrapper_sentinels [of "ex_remote (Some (ex_tb_limiter 50)) (ex_tb_item 50)" spec_deps 7]
  by (simp add: ex_remote_def spec_deps_def ex_tb_limiter_def)

text \<open>
  C6.  \<open>Sync\<close> of the local wrapper with the stored schema, and \<open>Sync\<close> of the remote
  wrapper with the stored item, return the cache unchanged: no limiter is built or resized,
  no provider call is made, no channel is closed, and the stored configuration stays.  In
  particular a second \<open>Sync\<close> with the configuration of a first one that returned changes
  nothing.
\<close>

theorem Sync_same_config_noop:
  "localWrapper_Sync d f (localConfig f) = Inr f
   \<and> (\<forall>r. remote f = Some r \<longrightarrow> remoteWrapper_Sync d f (remoteConfig r) = Inr f)
   \<and> (\<forall>f'. localWrapper_Sync d f schema = Inr f' \<longrightarrow> localWrapper_Sync d f' schema = Inr f')
   \<and> (\<forall>f'. remoteWrapper_Sync d f item = Inr f' \<longrightarrow> remoteWrapper_Sync d f' item = Inr f')"
proof (intro conjI allI impI)
  show "localWrapper_Sync d f (localConfig f) = Inr f"
    by (simp add: localWrapper_Sync_def)
next
  fix r assume "remote f = Some r"
  then show "remoteWrapper_Sync d f (remoteConfig r) = Inr f"
    by (simp add: remoteWrapper_Sync_def)
next
  fix f' assume "localWrapper_Sync d f schema = Inr f'"
  then have "localConfig f' = schema"
    by (rule localWrapper_Sync_stores)
  then show "localWrapper_Sync d f' schema = Inr f'"
    by (simp add: localWrapper_Sync_def)
next
  fix f' assume "remoteWrapper_Sync d f item = Inr f'"
  then obtain r' where "remote f' = Some r'" and "remoteConfig r' = item"
    using remoteWrapper_Sync_stores by blast
  then show "remoteWrapper_Sync d f' item = Inr f'"
    by (simp add: remoteWrapper_Sync_def)
qed

text \<open>Syncing the stored schema, and syncing an item twice.\<close>

theorem Sync_same_config_noop_witness:
  "localWrapper_Sync spec_deps
      (ex_cache ex_tb_schema (Some (ex_remote None zero_RateLimitItemConfiguration)) [])
      ex_tb_schema
     = Inr (ex_cache ex_tb_schema (Some (ex_remote None zero_RateLimitItemConfiguration)) [])
   \<and> remoteWrapper_Sync spec_deps
      (ex_cache ex_tb_schema (Some (ex_remote None zero_RateLimitItemConfiguration)) [])
      (ex_tb_item 50)
     = Inr (ex_cache ex_tb_schema (Some (ex_remote (Some (ex_tb_limiter 50)) (ex_tb_item 50)))
              [GC_Stop ''pods'', GC_Add ''pods'' TokenBucket])
   \<and> remoteWrapper_Sync spec_deps
      (ex_cache ex_tb_schema (Some (ex_remote (Some (ex_tb_limiter 50)) (ex_tb_item 50)))
              [GC_Stop ''pods'', GC_Add ''pods'' TokenBucket])
      (ex_tb_item 50)
     = Inr (ex_cache ex_tb_schema (Some (ex_remote (Some (ex_tb_limiter 50)) (ex_tb_item 50)))
              [GC_Stop ''pods'', GC_Add ''pods'' TokenBucket])"
  using Sync_same_config_noop
    [of spec_deps "ex_cache ex_tb_schema (Some (ex_remote None zero_RateLimitItemConfiguration)) []"
        ex_tb_schema "ex_tb_item 50"]
    ex_remote_first_sync
  by (simp add: ex_cache_def)

text \<open>
  C7, as stated, fails: a tick does not keep the rate average equal to the sum of the
  buckets divided by 3.  One admission in the first second and four in the next: after
  the first tick the average is \<open>fl(1/3)\<close> and the invariant holds; the second tick adds
  \<open>fl(4/3)\<close> and the sum rounds to \<open>7505999378950826 / 2^52\<close>, while the buckets
  \<open>1, 4, 0\<close> sum to 5 (in any order, exactly) and \<open>5 / 3\<close> rounds to
  \<open>7505999378950827 / 2^52\<close>.  The average also differs from the exact quotient.
\<close>

theorem rate_invariant_broken_by_tick:
  "rate_invariant (new_meter 0 0)
   \<and> calculateAvgRate (add (new_meter 0 0) 1) 1000000000 = Inr tick1_meter
   \<and> rate_invariant tick1_meter
   \<and> rate_invariant (add tick1_meter 4)
   \<and> calculateAvgRate (add tick1_meter 4) 2000000000 = Inr tick2_meter
   \<and> \<not> rate_invariant tick2_meter
   \<and> f64_val (rateAvg tick2_meter) \<noteq> exact_mean tick2_meter"
proof (intro conjI)
  show "calculateAvgRate (add (new_meter 0 0) 1) 1000000000 = Inr tick1_meter"
    by (rule first_tick)
  show "calculateAvgRate (add tick1_meter 4) 2000000000 = Inr tick2_meter"
    by (rule second_tick)
  show "f64_val (rateAvg tick2_meter) \<noteq> exact_mean tick2_meter"
    by (simp add: exact_mean_def tick2_meter_def f64_val_def)
qed (simp_all add: rate_invariant_def new_meter_def add_def tick1_meter_def tick2_meter_def
      replicate_QPSMeterBucketLen f64_of_int_values f64_add_values f64_div_by_3_values
      f64_eq_Finite)

text \<open>
  C7, amended.  The meter starts with three zero buckets, a zero average and index 0,
  where the average equals the sum of the buckets divided by 3.  Every
  \<open>calculateAvgRate\<close> tick with the index inside the buckets sets the average to
  \<open>rateAvg + (instantRate - bucket[i]) / N\<close> computed in \<open>float64\<close>, each of the three
  operations rounded, stores \<open>instantRate\<close> into \<open>bucket[i]\<close> and advances \<open>i\<close> modulo
  \<open>N\<close>, where it stays inside the buckets.  On finite values, the same update in exact
  arithmetic keeps the average equal to the sum of the buckets divided by \<open>N\<close>; for the
  rounded \<open>float64\<close> average that equality is not kept.
\<close>

theorem calculateAvgRate_step:
  "rateAvg (new_meter ch t0) = Finite 0
   \<and> counterBuckets (new_meter ch t0) = [Finite 0, Finite 0, Finite 0]
   \<and> currentIndex (new_meter ch t0) = 0
   \<and> rate_invariant (new_meter ch t0)
   \<and> (0 \<le> currentIndex m \<and> currentIndex m < int (length (counterBuckets m)) \<longrightarrow>
        calculateAvgRate m now =
          Inr (m\<lparr>uncounted := 0, last' := now,
                 rateAvg :=
                   f64_add (rateAvg m)
                     (f64_div (f64_sub (fst (latestRate m now))
                                 (counterBuckets m ! nat (currentIndex m)))
                        (f64_of_int (int (length (counterBuckets m))))),
                 counterBuckets :=
                   (counterBuckets m)[nat (currentIndex m) := fst (latestRate m now)],
                 currentIndex := (currentIndex m + 1) mod int (length (counterBuckets m))\<rparr>)
        \<and> 0 \<le> (currentIndex m + 1) mod int (length (counterBuckets m))
        \<and> (currentIndex m + 1) mod int (length (counterBuckets m))
            < int (length (counterBuckets m)))
   \<and> (i < length (counterBuckets m) \<and> f64_is_finite r \<and> f64_is_finite (rateAvg m)
        \<and> list_all f64_is_finite (counterBuckets m)
        \<and> f64_val (rateAvg m) = exact_mean m \<longrightarrow>
        f64_val (rateAvg m)
          + (f64_val r - f64_val (counterBuckets m ! i)) / of_nat (length (counterBuckets m))
        = exact_mean (m\<lparr>counterBuckets := (counterBuckets m)[i := r]\<rparr>))"
proof (intro conjI impI)
  show "rate_invariant (new_meter ch t0)"
    by (simp add: rate_invariant_def new_meter_def replicate_QPSMeterBucketLen
        f64_add_values f64_of_int_values f64_div_by_3_values f64_eq_Finite)
next
  assume h: "0 \<le> currentIndex m \<and> currentIndex m < int (length (counterBuckets m))"
  then show "calculateAvgRate m now =
          Inr (m\<lparr>uncounted := 0, last' := now,
                 rateAvg :=
                   f64_add (rateAvg m)
                     (f64_div (f64_sub (fst (latestRate m now))
                                 (counterBuckets m ! nat (currentIndex m)))
                        (f64_of_int (int (length (counterBuckets m))))),
                 counterBuckets :=
                   (counterBuckets m)[nat (currentIndex m) := fst (latestRate m now)],
                 currentIndex := (currentIndex m + 1) mod int (length (counterBuckets m))\<rparr>)"
    by (simp add: calculateAvgRate_def latestRate_def Let_def f64_eq_NaN)
  from h have pos: "0 < int (length (counterBuckets m))"
    by linarith
  from pos show "0 \<le> (currentIndex m + 1) mod int (length (counterBuckets m))"
    by (rule pos_mod_sign)
  from pos show "(currentIndex m + 1) mod int (length (counterBuckets m))
            < int (length (counterBuckets m))"
    by (rule pos_mod_bound)
next
  assume h: "i < length (counterBuckets m) \<and> f64_is_finite r \<and> f64_is_finite (rateAvg m)
        \<and> list_all f64_is_finite (counterBuckets m)
        \<and> f64_val (rateAvg m) = exact_mean m"
  then have "0 < length (counterBuckets m)"
    by auto
  with h show "f64_val (rateAvg m)
          + (f64_val r - f64_val (counterBuckets m ! i)) / of_nat (length (counterBuckets m))
        = exact_mean (m\<lparr>counterBuckets := (counterBuckets m)[i := r]\<rparr>)"
    by (simp add: exact_mean_def sum_list_map_update field_simps)
qed (simp_all add: new_meter_def replicate_QPSMeterBucketLen)

text \<open>The first tick of a new meter, after one admission.\<close>

theorem calculateAvgRate_step_witness:
  "calculateAvgRate (add (new_meter 0 0) 1) 1000000000 = Inr tick1_meter
   \<and> rate_invariant (new_meter 0 0)
   \<and> f64_val (rateAvg (add (new_meter 0 0) 1)) = exact_mean (add (new_meter 0 0) 1)
   \<and> exact_mean ((add (new_meter 0 0) 1)\<lparr>counterBuckets := [Finite 1, Finite 0, Finite 0]\<rparr>)
       = 1 / 3"
proof -
  let ?m = "add (new_meter 0 0) 1"
  have idx: "0 \<le> currentIndex ?m \<and> currentIndex ?m < int (length (counterBuckets ?m))"
    by (simp add: add_def new_meter_def replicate_QPSMeterBucketLen)
  have ex: "0 < length (counterBuckets ?m) \<and> f64_is_finite (Finite 1)
        \<and> f64_is_finite (rateAvg ?m) \<and> list_all f64_is_finite (counterBuckets ?m)
        \<and> f64_val (rateAvg ?m) = exact_mean ?m"
    by (simp add: add_def new_meter_def replicate_QPSMeterBucketLen exact_mean_def f64_val_def
        f64_is_finite_def)
  note step = calculateAvgRate_step [of 0 0 ?m 1000000000 0 "Finite 1"]
  from step [THEN conjunct2, THEN conjunct2, THEN conjunct2, THEN conjunct2, THEN conjunct1,
      rule_format, OF idx, THEN conjunct1]
  have 1: "calculateAvgRate ?m 1000000000 = Inr tick1_meter"
    by (simp add: tick_eval tick1_meter_def)
  from step [THEN conjunct2, THEN conjunct2, THEN conjunct2, THEN conjunct2, THEN conjunct2,
      rule_format, OF ex]
  have 2: "exact_mean (?m\<lparr>counterBuckets := [Finite 1, Finite 0, Finite 0]\<rparr>) = 1 / 3"
    by (simp add: add_def new_meter_def replicate_QPSMeterBucketLen f64_val_def)
  from step have 3: "rate_invariant (new_meter 0 0)"
    by simp
  from 1 2 3 ex show ?thesis by simp
qed

text \<open>
  C8.  No \<open>float64\<close> value is \<open>==\<close> to \<open>math.NaN()\<close>, so the assignment
  \<open>lastRate = 0\<close> never runs: \<open>calculateAvgRate\<close> is the same function as the one
  without the comparison and the assignment.
\<close>

theorem calculateAvgRate_NaN_branch_dead:
  "\<not> f64_eq x math_NaN
   \<and> calculateAvgRate m now = calculateAvgRate_without_NaN_branch m now"
  by (simp add: calculateAvgRate_def calculateAvgRate_without_NaN_branch_def f64_eq_NaN Let_def
      split: prod.splits)

text \<open>
  A NaN and a zero compared with \<open>math.NaN()\<close>; the first tick of a new meter; a tick
  that reads a bucket holding a NaN.
\<close>

theorem calculateAvgRate_NaN_branch_dead_witness:
  "\<not> f64_eq NaN math_NaN
   \<and> \<not> f64_eq (Finite 0) math_NaN
   \<and> calculateAvgRate (add (new_meter 0 0) 1) 1000000000 = Inr tick1_meter
   \<and> calculateAvgRate_without_NaN_branch (add (new_meter 0 0) 1) 1000000000 = Inr tick1_meter
   \<and> calculateAvgRate_without_NaN_branch
        ((add tick1_meter 4)\<lparr>counterBuckets := [Finite 1, NaN, Finite 0]\<rparr>) 2000000000
      = calculateAvgRate
        ((add tick1_meter 4)\<lparr>counterBuckets := [Finite 1, NaN, Finite 0]\<rparr>) 2000000000"
  using calculateAvgRate_NaN_branch_dead [of NaN "add (new_meter 0 0) 1" 1000000000]
    calculateAvgRate_NaN_branch_dead [of "Finite 0"
      "(add tick1_meter 4)\<lparr>counterBuckets := [Finite 1, NaN, Finite 0]\<rparr>" 2000000000]
    first_tick
  by simp

text \<open>
  C9.  For every schema, \<open>EnableGlobalFlowControl\<close> returns true exactly when the
  strategy is \<open>GlobalAllocateLimit\<close> or \<open>GlobalCountLimit\<close> and at least one of
  \<open>GlobalTokenBucket\<close> and \<open>GlobalMaxRequestsInflight\<close> is not \<open>nil\<close>.
\<close>

theorem EnableGlobalFlowControl_iff:
  "EnableGlobalFlowControl schema \<longleftrightarrow>
     (fcs_Strategy schema = GlobalAllocateLimit \<or> fcs_Strategy schema = GlobalCountLimit)
     \<and> (fcs_GlobalTokenBucket schema \<noteq> None \<or> fcs_GlobalMaxRequestsInflight schema \<noteq> None)"
  by (cases "fcs_Strategy schema") (simp_all add: EnableGlobalFlowControl_def)

text \<open>
  The predicate on the concrete schemas: two global ones, a local one, and a global
  strategy with no global detail.
\<close>

theorem EnableGlobalFlowControl_iff_witness:
  "EnableGlobalFlowControl ex_tb_schema
   \<and> EnableGlobalFlowControl ex_mri_schema
   \<and> \<not> EnableGlobalFlowControl ex_local_schema
   \<and> \<not> EnableGlobalFlowControl (ex_tb_schema\<lparr>fcs_GlobalTokenBucket := None\<rparr>)"
  using EnableGlobalFlowControl_iff [of ex_tb_schema]
    EnableGlobalFlowControl_iff [of ex_mri_schema]
    EnableGlobalFlowControl_iff [of ex_local_schema]
    EnableGlobalFlowControl_iff [of "ex_tb_schema\<lparr>fcs_GlobalTokenBucket := None\<rparr>"]
  by (simp add: ex_defs)

text \<open>
  C10.  On the resize branch of \<open>remoteWrapper.Sync\<close> (a new item, a held limiter of the
  item's type, the stored strategy): when the item has a \<open>MaxRequestsInflight\<close> detail and
  the limiter is of that type, a local configuration without \<open>GlobalMaxRequestsInflight\<close>
  makes the call panic with a nil dereference (the deferred assignment still stores the
  item), and one with it makes the call return; likewise for \<open>TokenBucket\<close> and
  \<open>GlobalTokenBucket\<close>.
\<close>

theorem remoteWrapper_Sync_resize_nil_deref:
  assumes "remote f = Some r" and "limitItem \<noteq> remoteConfig r"
    and "GlobalCounterFlowControl r = Some g"
    and "gfc_Type d g = GetFlowControlTypeFromLimitItem d (rli_LimitItemDetail limitItem)"
    and "rli_Strategy (remoteConfig r) = rli_Strategy limitItem"
  shows "(lid_MaxRequestsInflight (rli_LimitItemDetail limitItem) \<noteq> None
            \<and> gfc_Type d g = MaxRequestsInflight \<longrightarrow>
          (fcs_GlobalMaxRequestsInflight (localConfig f) = None \<longrightarrow>
             remoteWrapper_Sync d f limitItem =
               Inl (NilPointerDereference, set_remoteConfig f limitItem))
          \<and> (fcs_GlobalMaxRequestsInflight (localConfig f) \<noteq> None \<longrightarrow>
             \<not> isl (remoteWrapper_Sync d f limitItem)))
       \<and> (lid_TokenBucket (rli_LimitItemDetail limitItem) \<noteq> None
            \<and> gfc_Type d g = TokenBucket \<longrightarrow>
          (fcs_GlobalTokenBucket (localConfig f) = None \<longrightarrow>
             remoteWrapper_Sync d f limitItem =
               Inl (NilPointerDereference, set_remoteConfig f limitItem))
          \<and> (fcs_GlobalTokenBucket (localConfig f) \<noteq> None \<longrightarrow>
             \<not> isl (remoteWrapper_Sync d f limitItem)))"
proof (intro conjI impI)
  assume h: "lid_MaxRequestsInflight (rli_LimitItemDetail limitItem) \<noteq> None
            \<and> gfc_Type d g = MaxRequestsInflight"
  then obtain m where m: "lid_MaxRequestsInflight (rli_LimitItemDetail limitItem) = Some m"
    by auto
  note unfold = remoteWrapper_Sync_to_resize [OF assms]
    remoteWrapper_resize_MaxRequestsInflight [OF m conjunct2 [OF h]]
  {
    assume "fcs_GlobalMaxRequestsInflight (localConfig f) = None"
    then show "remoteWrapper_Sync d f limitItem =
               Inl (NilPointerDereference, set_remoteConfig f limitItem)"
      by (simp add: unfold)
  next
    assume "fcs_GlobalMaxRequestsInflight (localConfig f) \<noteq> None"
    then show "\<not> isl (remoteWrapper_Sync d f limitItem)"
      by (auto simp: unfold)
  }
next
  assume h: "lid_TokenBucket (rli_LimitItemDetail limitItem) \<noteq> None
            \<and> gfc_Type d g = TokenBucket"
  then obtain t where t: "lid_TokenBucket (rli_LimitItemDetail limitItem) = Some t"
    by auto
  note unfold = remoteWrapper_Sync_to_resize [OF assms]
    remoteWrapper_resize_TokenBucket [OF t conjunct2 [OF h]]
  {
    assume "fcs_GlobalTokenBucket (localConfig f) = None"
    then show "remoteWrapper_Sync d f limitItem =
               Inl (NilPointerDereference, set_remoteConfig f limitItem)"
      by (simp add: unfold)
  next
    assume "fcs_GlobalTokenBucket (localConfig f) \<noteq> None"
    then show "\<not> isl (remoteWrapper_Sync d f limitItem)"
      by (auto simp: unfold)
  }
qed

text \<open>
  Both branches with a purely local schema stored by the local wrapper (the panic), and
  with the matching global detail (the return).
\<close>

theorem remoteWrapper_Sync_resize_nil_deref_witness:
  "remoteWrapper_Sync spec_deps
     (ex_cache ex_local_schema (Some (ex_remote (Some (ex_mri_limiter 6)) (ex_mri_item 6)))
        [GC_Stop ''pods''])
     (ex_mri_item 20)
   = Inl (NilPointerDereference,
          ex_cache ex_local_schema (Some (ex_remote (Some (ex_mri_limiter 6)) (ex_mri_item 20)))
            [GC_Stop ''pods''])
   \<and> remoteWrapper_Sync spec_deps
     (ex_cache ex_local_tb_schema (Some (ex_remote (Some (ex_tb_limiter 50)) (ex_tb_item 50)))
        [GC_Stop ''pods'', GC_Add ''pods'' TokenBucket])
     (ex_tb_item 500)
   = Inl (NilPointerDereference,
          ex_cache ex_local_tb_schema (Some (ex_remote (Some (ex_tb_limiter 50)) (ex_tb_item 500)))
            [GC_Stop ''pods'', GC_Add ''pods'' TokenBucket])
   \<and> \<not> isl (remoteWrapper_Sync spec_deps
     (ex_cache ex_mri_schema (Some (ex_remote (Some (ex_mri_limiter 6)) (ex_mri_item 6)))
        [GC_Stop ''pods''])
     (ex_mri_item 20))
   \<and> \<not> isl (remoteWrapper_Sync spec_deps
     (ex_cache ex_tb_schema (Some (ex_remote (Some (ex_tb_limiter 50)) (ex_tb_item 50)))
        [GC_Stop ''pods'', GC_Add ''pods'' TokenBucket])
     (ex_tb_item 500))"
proof -
  let ?M = "ex_remote (Some (ex_mri_limiter 6)) (ex_mri_item 6)"
  let ?T = "ex_remote (Some (ex_tb_limiter 50)) (ex_tb_item 50)"
  let ?calls = "[GC_Stop ''pods'', GC_Add ''pods'' TokenBucket]"
  have m: "remote (ex_cache s (Some ?M) c) = Some ?M" "ex_mri_item 20 \<noteq> remoteConfig ?M"
    "GlobalCounterFlowControl ?M = Some (ex_mri_limiter 6)"
    "gfc_Type spec_deps (ex_mri_limiter 6)
       = GetFlowControlTypeFromLimitItem spec_deps (rli_LimitItemDetail (ex_mri_item 20))"
    "rli_Strategy (remoteConfig ?M) = rli_Strategy (ex_mri_item 20)" for s c
    by (simp_all add: spec_defs ex_defs)
  have t: "remote (ex_cache s (Some ?T) c) = Some ?T" "ex_tb_item 500 \<noteq> remoteConfig ?T"
    "GlobalCounterFlowControl ?T = Some (ex_tb_limiter 50)"
    "gfc_Type spec_deps (ex_tb_limiter 50)
       = GetFlowControlTypeFromLimitItem spec_deps (rli_LimitItemDetail (ex_tb_item 500))"
    "rli_Strategy (remoteConfig ?T) = rli_Strategy (ex_tb_item 500)" for s c
    by (simp_all add: spec_defs ex_defs)
  have mb: "lid_MaxRequestsInflight (rli_LimitItemDetail (ex_mri_item 20)) \<noteq> None
       \<and> gfc_Type spec_deps (ex_mri_limiter 6) = MaxRequestsInflight"
    and tb: "lid_TokenBucket (rli_LimitItemDetail (ex_tb_item 500)) \<noteq> None
       \<and> gfc_Type spec_deps (ex_tb_limiter 50) = TokenBucket"
    by (simp_all add: spec_defs ex_defs)
  have nil: "fcs_GlobalMaxRequestsInflight (localConfig (ex_cache ex_local_schema r c)) = None"
    "fcs_GlobalTokenBucket (localConfig (ex_cache ex_local_tb_schema r c)) = None"
    and non_nil:
    "fcs_GlobalMaxRequestsInflight (localConfig (ex_cache ex_mri_schema r c)) \<noteq> None"
    "fcs_GlobalTokenBucket (localConfig (ex_cache ex_tb_schema r c)) \<noteq> None" for r c
    by (simp_all add: ex_defs)
  from remoteWrapper_Sync_resize_nil_deref
         [OF m, THEN conjunct1, rule_format, OF mb, THEN conjunct1, rule_format, OF nil(1)]
  have 1: "remoteWrapper_Sync spec_deps (ex_cache ex_local_schema (Some ?M) [GC_Stop ''pods''])
             (ex_mri_item 20)
     = Inl (NilPointerDereference,
          ex_cache ex_local_schema (Some (ex_remote (Some (ex_mri_limiter 6)) (ex_mri_item 20)))
            [GC_Stop ''pods''])"
    by (simp add: set_remoteConfig_def ex_cache_def ex_remote_def)
  from remoteWrapper_Sync_resize_nil_deref
         [OF t, THEN conjunct2, rule_format, OF tb, THEN conjunct1, rule_format, OF nil(2)]
  have 2: "remoteWrapper_Sync spec_deps (ex_cache ex_local_tb_schema (Some ?T) ?calls)
             (ex_tb_item 500)
     = Inl (NilPointerDereference,
          ex_cache ex_local_tb_schema (Some (ex_remote (Some (ex_tb_limiter 50)) (ex_tb_item 500)))
            ?calls)"
    by (simp add: set_remoteConfig_def ex_cache_def ex_remote_def)
  note 3 = remoteWrapper_Sync_resize_nil_deref
         [OF m, THEN conjunct1, rule_format, OF mb, THEN conjunct2, rule_format, OF non_nil(1)]
  note 4 = remoteWrapper_Sync_resize_nil_deref
         [OF t, THEN conjunct2, rule_format, OF tb, THEN conjunct2, rule_format, OF non_nil(2)]
  from 1 2 3 4 show ?thesis by simp
qed

end
